theory Spec2Isabelle
  imports Complex_Main "HOL-Library.Log_Nat"
begin

section \<open>Numbers\<close>

text \<open>
  The program computes with NumPy \<^verbatim>\<open>float64\<close> values. A finite float is modelled by
  the real number it denotes and the arithmetic of the colour transformations on finite
  values is exact: rounding and the sign of zero are not modelled there. The values an
  IEEE division by zero produces are kept, since NumPy does not raise there (it warns and
  goes on with \<^verbatim>\<open>inf\<close> or \<^verbatim>\<open>nan\<close>): a float is a finite real, an infinity or NaN.
  The product in \<^verbatim>\<open>rgb_to_hex\<close> is the exception: it is truncated to an integer, so
  that its rounding decides a digit, and it is rounded as IEEE 754 does (\<open>fmul64\<close>
  below).
\<close>

datatype npfloat = Finite real | PosInf | NegInf | NaN

definition inf_of_sign :: "real \<Rightarrow> npfloat" where
  "inf_of_sign s = (if 0 < s then PosInf else if s < 0 then NegInf else NaN)"

fun fneg :: "npfloat \<Rightarrow> npfloat" where
  "fneg (Finite a) = Finite (- a)"
| "fneg PosInf = NegInf"
| "fneg NegInf = PosInf"
| "fneg NaN = NaN"

fun fadd :: "npfloat \<Rightarrow> npfloat \<Rightarrow> npfloat" where
  "fadd (Finite a) (Finite b) = Finite (a + b)"
| "fadd NaN _ = NaN"
| "fadd _ NaN = NaN"
| "fadd PosInf NegInf = NaN"
| "fadd NegInf PosInf = NaN"
| "fadd PosInf _ = PosInf"
| "fadd _ PosInf = PosInf"
| "fadd NegInf _ = NegInf"
| "fadd _ NegInf = NegInf"

fun fmul :: "npfloat \<Rightarrow> npfloat \<Rightarrow> npfloat" where
  "fmul (Finite a) (Finite b) = Finite (a * b)"
| "fmul NaN _ = NaN"
| "fmul _ NaN = NaN"
| "fmul PosInf (Finite b) = inf_of_sign b"
| "fmul NegInf (Finite b) = inf_of_sign (- b)"
| "fmul (Finite a) PosInf = inf_of_sign a"
| "fmul (Finite a) NegInf = inf_of_sign (- a)"
| "fmul PosInf PosInf = PosInf"
| "fmul NegInf NegInf = PosInf"
| "fmul PosInf NegInf = NegInf"
| "fmul NegInf PosInf = NegInf"

text \<open>
  The \<^verbatim>\<open>float64\<close> product. The exact product is rounded to the nearest multiple of
  the unit in the last place, ties to the even multiple. The exponent of that unit is 52
  below the binary exponent of the value and never below \<open>- 1074\<close> (the subnormal
  range): with \<open>n\<close> the integer part of \<open>\<bar>x\<bar> * 2 ^ 1074\<close> it is
  \<open>max (bitlen n - 53) 0 - 1074\<close>. A rounded value of magnitude \<open>2 ^ 1024\<close> or more
  overflows to an infinity.
\<close>

definition half_even :: "real \<Rightarrow> int" where
  "half_even x =
     (let n = \<lfloor>x\<rfloor>; d = x - of_int n
      in if d < 1 / 2 then n else if 1 / 2 < d then n + 1 else if even n then n else n + 1)"

definition ulp_exp :: "real \<Rightarrow> int" where
  "ulp_exp x = max (bitlen \<lfloor>\<bar>x\<bar> * 2 ^ 1074\<rfloor> - 53) 0 - 1074"

definition round_nearest :: "real \<Rightarrow> real" where
  "round_nearest x = of_int (half_even (x / 2 powi ulp_exp x)) * 2 powi ulp_exp x"

definition round64 :: "real \<Rightarrow> npfloat" where
  "round64 x =
     (let y = round_nearest x in if 2 ^ 1024 \<le> \<bar>y\<bar> then inf_of_sign y else Finite y)"

fun fmul64 :: "npfloat \<Rightarrow> npfloat \<Rightarrow> npfloat" where
  "fmul64 (Finite a) (Finite b) = round64 (a * b)"
| "fmul64 a b = fmul a b"

text \<open>
  Division: a finite value over zero is an infinity of the dividend's sign (the zero
  divisor counts as \<open>+0\<close>), zero over zero and infinity over infinity are NaN.
\<close>

fun fdiv :: "npfloat \<Rightarrow> npfloat \<Rightarrow> npfloat" where
  "fdiv (Finite a) (Finite b) = (if b = 0 then inf_of_sign a else Finite (a / b))"
| "fdiv NaN _ = NaN"
| "fdiv _ NaN = NaN"
| "fdiv (Finite a) PosInf = Finite 0"
| "fdiv (Finite a) NegInf = Finite 0"
| "fdiv PosInf (Finite b) = (if 0 \<le> b then PosInf else NegInf)"
| "fdiv NegInf (Finite b) = (if 0 \<le> b then NegInf else PosInf)"
| "fdiv PosInf PosInf = NaN"
| "fdiv PosInf NegInf = NaN"
| "fdiv NegInf PosInf = NaN"
| "fdiv NegInf NegInf = NaN"

text \<open>Comparisons: every comparison with NaN is false.\<close>

fun flt :: "npfloat \<Rightarrow> npfloat \<Rightarrow> bool" where
  "flt (Finite a) (Finite b) = (a < b)"
| "flt NaN _ = False"
| "flt _ NaN = False"
| "flt PosInf _ = False"
| "flt _ PosInf = True"
| "flt NegInf NegInf = False"
| "flt NegInf _ = True"
| "flt _ NegInf = False"

fun feq :: "npfloat \<Rightarrow> npfloat \<Rightarrow> bool" where
  "feq (Finite a) (Finite b) = (a = b)"
| "feq PosInf PosInf = True"
| "feq NegInf NegInf = True"
| "feq _ _ = False"

text \<open>\<^verbatim>\<open>np.min\<close> and \<^verbatim>\<open>np.max\<close> return NaN as soon as one element is NaN.\<close>

fun fmin :: "npfloat \<Rightarrow> npfloat \<Rightarrow> npfloat" where
  "fmin NaN _ = NaN"
| "fmin _ NaN = NaN"
| "fmin a b = (if flt b a then b else a)"

fun fmax :: "npfloat \<Rightarrow> npfloat \<Rightarrow> npfloat" where
  "fmax NaN _ = NaN"
| "fmax _ NaN = NaN"
| "fmax a b = (if flt a b then b else a)"

fun is_finite :: "npfloat \<Rightarrow> bool" where
  "is_finite (Finite _) = True"
| "is_finite _ = False"

subsection \<open>Vectors and matrices\<close>

text \<open>
  An array of shape \<open>(3,)\<close> is a triple, a \<open>3 \<times> 3\<close> matrix the triple of its rows, an
  array of shape \<open>(n,)\<close> a list and one of shape \<open>(n, 3)\<close> a list of rows.
\<close>

type_synonym vec3 = "npfloat \<times> npfloat \<times> npfloat"
type_synonym mat3 = "vec3 \<times> vec3 \<times> vec3"
type_synonym rvec3 = "real \<times> real \<times> real"
type_synonym rmat3 = "rvec3 \<times> rvec3 \<times> rvec3"

definition lift3 :: "rvec3 \<Rightarrow> vec3" where
  "lift3 v = (case v of (a, b, c) \<Rightarrow> (Finite a, Finite b, Finite c))"

definition vmap :: "(npfloat \<Rightarrow> npfloat) \<Rightarrow> vec3 \<Rightarrow> vec3" where
  "vmap f v = (case v of (a, b, c) \<Rightarrow> (f a, f b, f c))"

definition vmul :: "vec3 \<Rightarrow> vec3 \<Rightarrow> vec3" where
  "vmul u v = (case u of (a, b, c) \<Rightarrow> case v of (x, y, z) \<Rightarrow> (fmul a x, fmul b y, fmul c z))"

definition vadd :: "vec3 \<Rightarrow> vec3 \<Rightarrow> vec3" where
  "vadd u v = (case u of (a, b, c) \<Rightarrow> case v of (x, y, z) \<Rightarrow> (fadd a x, fadd b y, fadd c z))"

definition vsum :: "vec3 \<Rightarrow> npfloat" where
  "vsum v = (case v of (a, b, c) \<Rightarrow> fadd (fadd a b) c)"

definition vmin :: "vec3 \<Rightarrow> npfloat" where
  "vmin v = (case v of (a, b, c) \<Rightarrow> fmin (fmin a b) c)"

definition vmax :: "vec3 \<Rightarrow> npfloat" where
  "vmax v = (case v of (a, b, c) \<Rightarrow> fmax (fmax a b) c)"

definition vany :: "(npfloat \<Rightarrow> bool) \<Rightarrow> vec3 \<Rightarrow> bool" where
  "vany p v = (case v of (a, b, c) \<Rightarrow> p a \<or> p b \<or> p c)"

definition vall :: "(npfloat \<Rightarrow> bool) \<Rightarrow> vec3 \<Rightarrow> bool" where
  "vall p v = (case v of (a, b, c) \<Rightarrow> p a \<and> p b \<and> p c)"

definition dot :: "vec3 \<Rightarrow> vec3 \<Rightarrow> npfloat" where
  "dot u v = vsum (vmul u v)"

definition mat_dot :: "mat3 \<Rightarrow> vec3 \<Rightarrow> vec3" where
  "mat_dot m v = (case m of (r1, r2, r3) \<Rightarrow> (dot r1 v, dot r2 v, dot r3 v))"

definition np_sum :: "npfloat list \<Rightarrow> npfloat" where
  "np_sum xs = foldl fadd (Finite 0) xs"

definition sum_axis0 :: "vec3 list \<Rightarrow> vec3" where
  "sum_axis0 rows = foldl vadd (Finite 0, Finite 0, Finite 0) rows"

definition sum_axis1 :: "vec3 list \<Rightarrow> npfloat list" where
  "sum_axis1 rows = map vsum rows"

section \<open>Errors\<close>

text \<open>
  The exceptions the module can raise: \<^verbatim>\<open>numpy.linalg.LinAlgError\<close> from
  \<^verbatim>\<open>np.linalg.inv\<close> on a singular matrix, \<^verbatim>\<open>ValueError\<close> from NumPy when two shapes
  cannot be broadcast together, \<^verbatim>\<open>AttributeError\<close> from reading an attribute that was
  never set.
\<close>

datatype py_error = LinAlgError | ValueError | AttributeError

section \<open>Hex encoding\<close>

definition trunc :: "real \<Rightarrow> int" where
  "trunc r = (if 0 \<le> r then \<lfloor>r\<rfloor> else \<lceil>r\<rceil>)"

text \<open>
  \<^verbatim>\<open>astype(int)\<close> truncates toward zero. The conversion of NaN, of an infinity and of a
  value outside the range of the platform's \<^verbatim>\<open>int\<close> is left to the platform by NumPy;
  the model gives \<open>None\<close> there, and a value where the truncation fits 32 bits.
\<close>

definition astype_int :: "npfloat \<Rightarrow> int option" where
  "astype_int x =
     (case x of
        Finite r \<Rightarrow>
          (if - (2 ^ 31) \<le> trunc r \<and> trunc r < 2 ^ 31 then Some (trunc r) else None)
      | _ \<Rightarrow> None)"

definition hex_digit :: "nat \<Rightarrow> char" where
  "hex_digit d = ''0123456789abcdef'' ! d"

fun hex_of_nat :: "nat \<Rightarrow> string" where
  "hex_of_nat n =
     (if n < 16 then [hex_digit n] else hex_of_nat (n div 16) @ [hex_digit (n mod 16)])"

declare hex_of_nat.simps [simp del]

definition zero_pad :: "nat \<Rightarrow> string \<Rightarrow> string" where
  "zero_pad w s = replicate (w - length s) (CHR ''0'') @ s"

text \<open>
  Python's format specification \<^verbatim>\<open>02x\<close>: lowercase hexadecimal, padded with zeros
  after the sign to a width of two characters.
\<close>

definition format_02x :: "int \<Rightarrow> string" where
  "format_02x n =
     (if n < 0 then CHR ''-'' # zero_pad 1 (hex_of_nat (nat (- n)))
      else zero_pad 2 (hex_of_nat (nat n)))"

text \<open>
  \<^verbatim>\<open>(255 * rgb).astype(int)\<close>: the product is a \<^verbatim>\<open>float64\<close> array, each entry
  rounded, and the conversion truncates the rounded entries.
\<close>

definition rgb_to_hex :: "vec3 \<Rightarrow> string option" where
  "rgb_to_hex rgb =
     (case vmap (fmul64 (Finite 255)) rgb of (r, g, b) \<Rightarrow>
        (case (astype_int r, astype_int g, astype_int b) of
           (Some i, Some j, Some k) \<Rightarrow>
             Some (''#'' @ format_02x i @ format_02x j @ format_02x k)
         | _ \<Rightarrow> None))"

section \<open>Reference tables\<close>

text \<open>
  The class attributes \<^verbatim>\<open>cmf1931\<close>, \<^verbatim>\<open>cmf1964\<close> and \<^verbatim>\<open>D65\<close> are read by
  \<^verbatim>\<open>np.loadtxt\<close> from files that are not part of the sources: the tables are a
  parameter of the model, two arrays of shape \<open>(n, 3)\<close> and one of shape \<open>(m,)\<close>.
\<close>

record tables =
  cmf1931 :: "vec3 list"
  cmf1964 :: "vec3 list"
  D65 :: "npfloat list"

text \<open>
  \<^verbatim>\<open>np.multiply\<close> of two one-dimensional arrays: equal lengths multiply elementwise, an
  array of length one is stretched, any other pair of lengths raises.
\<close>

definition np_multiply1 :: "npfloat list \<Rightarrow> npfloat list \<Rightarrow> py_error + npfloat list" where
  "np_multiply1 xs ys =
     (if length xs = length ys then Inr (map2 fmul xs ys)
      else if length xs = 1 then Inr (map (fmul (hd xs)) ys)
      else if length ys = 1 then Inr (map (\<lambda>x. fmul x (hd ys)) xs)
      else Inl ValueError)"

definition column1 :: "vec3 list \<Rightarrow> npfloat list" where
  "column1 rows = map (\<lambda>row. case row of (x, y, z) \<Rightarrow> y) rows"

text \<open>\<^verbatim>\<open>weight = np.sum(np.multiply(cmf1964[:, 1], D65))\<close>, evaluated once in the class body.\<close>

definition weight :: "tables \<Rightarrow> py_error + npfloat" where
  "weight tabs =
     (case np_multiply1 (column1 (cmf1964 tabs)) (D65 tabs) of
        Inl e \<Rightarrow> Inl e
      | Inr ps \<Rightarrow> Inr (np_sum ps))"

section \<open>The colour system\<close>

record ColourSystem =
  red :: rvec3
  green :: rvec3
  blue :: rvec3
  white :: vec3
  cmf :: "vec3 list option"
  M :: rmat3
  MI :: rmat3
  wscale :: vec3
  T :: mat3

definition xyz_from_xy :: "real \<Rightarrow> real \<Rightarrow> rvec3" where
  "xyz_from_xy x y = (x, y, 1 - x - y)"

definition xy_to_xyz :: "real \<Rightarrow> real \<Rightarrow> vec3" where
  "xy_to_xyz x y = lift3 (xyz_from_xy x y)"

definition transpose3 :: "rmat3 \<Rightarrow> rmat3" where
  "transpose3 m =
     (case m of ((a, b, c), (d, e, f), (g, h, i)) \<Rightarrow> ((a, d, g), (b, e, h), (c, f, i)))"

definition det3 :: "rmat3 \<Rightarrow> real" where
  "det3 m =
     (case m of ((a, b, c), (d, e, f), (g, h, i)) \<Rightarrow>
        a * (e * i - f * h) - b * (d * i - f * g) + c * (d * h - e * g))"

text \<open>
  \<^verbatim>\<open>np.linalg.inv\<close> on a \<open>3 \<times> 3\<close> matrix of finite entries, in exact arithmetic: it raises
  \<^verbatim>\<open>LinAlgError\<close> on a singular matrix and returns the inverse otherwise, here by the
  adjugate over the determinant.
\<close>

definition inv3 :: "rmat3 \<Rightarrow> py_error + rmat3" where
  "inv3 m =
     (case m of ((a, b, c), (d, e, f), (g, h, i)) \<Rightarrow>
        (let dt = det3 m in
         if dt = 0 then Inl LinAlgError
         else Inr (((e * i - f * h) / dt, (c * h - b * i) / dt, (b * f - c * e) / dt),
                   ((f * g - d * i) / dt, (a * i - c * g) / dt, (c * d - a * f) / dt),
                   ((d * h - e * g) / dt, (b * g - a * h) / dt, (a * e - b * d) / dt))))"

text \<open>The product of a real matrix and a vector, to state what \<open>inv3\<close> returns.\<close>

definition rmat_vec :: "rmat3 \<Rightarrow> rvec3 \<Rightarrow> rvec3" where
  "rmat_vec m v =
     (case m of ((a, b, c), (d, e, f), (g, h, i)) \<Rightarrow> case v of (x, y, z) \<Rightarrow>
        (a * x + b * y + c * z, d * x + e * y + f * z, g * x + h * y + i * z))"

definition lift_mat :: "rmat3 \<Rightarrow> mat3" where
  "lift_mat m = (case m of (r1, r2, r3) \<Rightarrow> (lift3 r1, lift3 r2, lift3 r3))"

text \<open>\<^verbatim>\<open>MI / wscale[:, np.newaxis]\<close>: row \<open>i\<close> of the matrix is divided by component \<open>i\<close>.\<close>

definition row_div :: "mat3 \<Rightarrow> vec3 \<Rightarrow> mat3" where
  "row_div m ws =
     (case m of (r1, r2, r3) \<Rightarrow> case ws of (w1, w2, w3) \<Rightarrow>
        (vmap (\<lambda>x. fdiv x w1) r1, vmap (\<lambda>x. fdiv x w2) r2, vmap (\<lambda>x. fdiv x w3) r3))"

text \<open>
  \<^verbatim>\<open>__init__\<close>. The chromaticities are pairs of finite floats. The two \<^verbatim>\<open>if\<close>
  statements on \<^verbatim>\<open>cmf\<close> have no \<^verbatim>\<open>else\<close>: with any other value the attribute
  \<^verbatim>\<open>self.cmf\<close> is never set, which the field \<open>cmf\<close> records as \<open>None\<close>.
\<close>

definition init ::
  "tables \<Rightarrow> real \<times> real \<Rightarrow> real \<times> real \<Rightarrow> real \<times> real \<Rightarrow> vec3 \<Rightarrow> int
     \<Rightarrow> py_error + ColourSystem" where
  "init tabs red_xy green_xy blue_xy white_v cmf_v =
     (let r = xyz_from_xy (fst red_xy) (snd red_xy);
          g = xyz_from_xy (fst green_xy) (snd green_xy);
          b = xyz_from_xy (fst blue_xy) (snd blue_xy);
          c1 = (if cmf_v = 1964 then Some (cmf1964 tabs) else None);
          c2 = (if cmf_v = 1931 then Some (cmf1931 tabs) else c1);
          m = transpose3 (r, g, b)
      in case inv3 m of
           Inl e \<Rightarrow> Inl e
         | Inr mi \<Rightarrow>
             (let ws = mat_dot (lift_mat mi) white_v
              in Inr \<lparr>red = r, green = g, blue = b, white = white_v, cmf = c2,
                      M = m, MI = mi, wscale = ws, T = row_div (lift_mat mi) ws\<rparr>))"

datatype rgb_out = Frac vec3 | Html "string option"

definition desaturate :: "vec3 \<Rightarrow> vec3" where
  "desaturate rgb =
     (if vany (\<lambda>c. flt c (Finite 0)) rgb
      then (let w = fneg (vmin rgb) in vmap (\<lambda>c. fadd c w) rgb)
      else rgb)"

definition normalize :: "vec3 \<Rightarrow> vec3" where
  "normalize rgb =
     (if \<not> vall (\<lambda>c. feq c (Finite 0)) rgb
      then (let mx = vmax rgb in vmap (\<lambda>c. fdiv c mx) rgb)
      else rgb)"

definition xyz_to_rgb :: "ColourSystem \<Rightarrow> vec3 \<Rightarrow> string option \<Rightarrow> rgb_out" where
  "xyz_to_rgb cs xyz out_fmt =
     (let rgb = normalize (desaturate (mat_dot (T cs) xyz))
      in if out_fmt = Some ''html'' then Html (rgb_to_hex rgb) else Frac rgb)"

definition xy_to_rgb :: "ColourSystem \<Rightarrow> real \<Rightarrow> real \<Rightarrow> string option \<Rightarrow> rgb_out" where
  "xy_to_rgb cs x y out_fmt = xyz_to_rgb cs (xy_to_xyz x y) out_fmt"

text \<open>
  \<^verbatim>\<open>xyz_to_spec\<close> reads the class attributes \<^verbatim>\<open>ColourSystem.weight\<close> and
  \<^verbatim>\<open>ColourSystem.cmf1964\<close>, not the instance's \<^verbatim>\<open>self.cmf\<close>. A class body that
  raised leaves no class to call: the model returns that error.
\<close>

definition xyz_to_spec :: "tables \<Rightarrow> ColourSystem \<Rightarrow> vec3 \<Rightarrow> py_error + npfloat list" where
  "xyz_to_spec tabs cs xyz =
     (case weight tabs of
        Inl e \<Rightarrow> Inl e
      | Inr w \<Rightarrow>
          (let result = vmap (\<lambda>c. fmul c w) xyz;
               result2 = map (vmul result) (cmf1964 tabs)
           in Inr (sum_axis1 result2)))"

definition xy_to_spec :: "tables \<Rightarrow> ColourSystem \<Rightarrow> real \<Rightarrow> real \<Rightarrow> py_error + npfloat list" where
  "xy_to_spec tabs cs x y = xyz_to_spec tabs cs (xy_to_xyz x y)"

text \<open>
  \<^verbatim>\<open>spec[:, np.newaxis] * self.cmf\<close>: shapes \<open>(n, 1)\<close> and \<open>(m, 3)\<close> broadcast when
  \<open>n = m\<close>, when \<open>n = 1\<close> and when \<open>m = 1\<close>; NumPy raises \<^verbatim>\<open>ValueError\<close> otherwise.
\<close>

definition scale :: "npfloat \<Rightarrow> vec3 \<Rightarrow> vec3" where
  "scale s row = vmap (fmul s) row"

definition broadcast_rows :: "npfloat list \<Rightarrow> vec3 list \<Rightarrow> py_error + vec3 list" where
  "broadcast_rows spec tab =
     (if length spec = length tab then Inr (map2 scale spec tab)
      else if length spec = 1 then Inr (map (scale (hd spec)) tab)
      else if length tab = 1 then Inr (map (\<lambda>s. scale s (hd tab)) spec)
      else Inl ValueError)"

definition raw_xyz :: "vec3 list \<Rightarrow> npfloat list \<Rightarrow> py_error + vec3" where
  "raw_xyz tab spec =
     (case broadcast_rows spec tab of
        Inl e \<Rightarrow> Inl e
      | Inr rows \<Rightarrow> Inr (sum_axis0 rows))"

definition spec_to_xyz :: "ColourSystem \<Rightarrow> npfloat list \<Rightarrow> py_error + vec3" where
  "spec_to_xyz cs spec =
     (case cmf cs of
        None \<Rightarrow> Inl AttributeError
      | Some tab \<Rightarrow>
          (case raw_xyz tab spec of
             Inl e \<Rightarrow> Inl e
           | Inr XYZ \<Rightarrow>
               (let den = vsum XYZ
                in if feq den (Finite 0) then Inr XYZ
                   else Inr (vmap (\<lambda>c. fdiv c den) XYZ))))"

definition spec_to_rgb ::
  "ColourSystem \<Rightarrow> npfloat list \<Rightarrow> string option \<Rightarrow> py_error + rgb_out" where
  "spec_to_rgb cs spec out_fmt =
     (case spec_to_xyz cs spec of
        Inl e \<Rightarrow> Inl e
      | Inr xyz \<Rightarrow> Inr (xyz_to_rgb cs xyz out_fmt))"

definition sepc_to_xy :: "ColourSystem \<Rightarrow> npfloat list \<Rightarrow> py_error + npfloat \<times> npfloat" where
  "sepc_to_xy cs spec =
     (case spec_to_xyz cs spec of
        Inl e \<Rightarrow> Inl e
      | Inr (X, Y, Z) \<Rightarrow>
          Inr (fdiv X (fadd (fadd X Y) Z), fdiv Y (fadd (fadd X Y) Z)))"

subsection \<open>The preconfigured systems\<close>

definition illuminant_D65 :: vec3 where
  "illuminant_D65 = xy_to_xyz 0.3127 0.3291"

definition cs_hdtv :: "tables \<Rightarrow> py_error + ColourSystem" where
  "cs_hdtv tabs = init tabs (0.67, 0.33) (0.21, 0.71) (0.15, 0.06) illuminant_D65 1964"

definition cs_smpte :: "tables \<Rightarrow> py_error + ColourSystem" where
  "cs_smpte tabs = init tabs (0.63, 0.34) (0.31, 0.595) (0.155, 0.070) illuminant_D65 1964"

definition cs_srgb :: "tables \<Rightarrow> py_error + ColourSystem" where
  "cs_srgb tabs = init tabs (0.64, 0.33) (0.30, 0.60) (0.15, 0.06) illuminant_D65 1964"

subsection \<open>\<open>xyz_to_spec\<close> in the words of the specification\<close>

text \<open>
  The specification's description of \<^verbatim>\<open>xyz_to_spec\<close>, to be compared with the
  definition taken from the source, and written without the helpers of that definition.
  The weight is the sum of the elementwise product of the Y channel of the 1964 table and
  the D65 spectrum. The result has, for each row of the 1964 table, the sum of the
  elementwise product of the scaled vector and that row. It has no colour system among
  its arguments.
\<close>

fun y_channel :: "vec3 \<Rightarrow> npfloat" where
  "y_channel (x, y, z) = y"

definition weight_spec :: "tables \<Rightarrow> npfloat" where
  "weight_spec tabs =
     foldl fadd (Finite 0)
       (map (\<lambda>(row, d). fmul (y_channel row) d) (zip (cmf1964 tabs) (D65 tabs)))"

fun row_sum_spec :: "npfloat \<Rightarrow> vec3 \<Rightarrow> vec3 \<Rightarrow> npfloat" where
  "row_sum_spec w (X, Y, Z) (x, y, z) =
     fadd (fadd (fmul (fmul X w) x) (fmul (fmul Y w) y)) (fmul (fmul Z w) z)"

definition xyz_to_spec_spec :: "tables \<Rightarrow> vec3 \<Rightarrow> npfloat list" where
  "xyz_to_spec_spec tabs xyz = map (row_sum_spec (weight_spec tabs) xyz) (cmf1964 tabs)"

subsection \<open>Concrete inputs\<close>

text \<open>
  Tables of the documented shape (81 rows) with every entry 1, on which the model is run
  where a concrete table is needed; they are not the CIE data.
\<close>

definition flat_tables :: tables where
  "flat_tables =
     \<lparr>cmf1931 = replicate 81 (Finite 1, Finite 1, Finite 1),
      cmf1964 = replicate 81 (Finite 1, Finite 1, Finite 1),
      D65 = replicate 81 (Finite 1)\<rparr>"

text \<open>
  Tables of 81 rows whose three channels differ and whose 1931 and 1964 tables differ,
  on which a result shows the channel and the table it was computed from; they are not
  the CIE data either.
\<close>

definition skew_tables :: tables where
  "skew_tables =
     \<lparr>cmf1931 = replicate 81 (Finite 3, Finite 5, Finite 7),
      cmf1964 = replicate 81 (Finite 1, Finite 2, Finite 4),
      D65 = replicate 81 (Finite (1 / 2))\<rparr>"

text \<open>The instance that \<open>cs_srgb\<close> constructs, written out (lemma \<open>cs_srgb_value\<close>).\<close>

definition srgb_value :: "tables \<Rightarrow> ColourSystem" where
  "srgb_value tabs =
     \<lparr>red = (16 / 25, 33 / 100, 3 / 100),
      green = (3 / 10, 3 / 5, 1 / 10),
      blue = (3 / 20, 3 / 50, 79 / 100),
      white = (Finite (3127 / 10000), Finite (3291 / 10000), Finite (1791 / 5000)),
      cmf = Some (cmf1964 tabs),
      M = ((16 / 25, 3 / 10, 3 / 20), (33 / 100, 3 / 5, 3 / 50), (3 / 100, 1 / 10, 79 / 100)),
      MI = ((520 / 249, - (740 / 747), - (80 / 249)),
            (- (863 / 747), 5011 / 2241, 37 / 747),
            (50 / 747, - (550 / 2241), 950 / 747)),
      wscale = (Finite (1759 / 8300), Finite (977 / 2490), Finite (9853 / 24900)),
      T = ((Finite (52000 / 5277), Finite (- (74000 / 15831)), Finite (- (8000 / 5277))),
           (Finite (- (8630 / 2931)), Finite (50110 / 8793), Finite (370 / 2931)),
           (Finite (5000 / 29559), Finite (- (55000 / 88677)), Finite (95000 / 29559)))\<rparr>"

section \<open>Properties\<close>

subsection \<open>Hex encoding\<close>

lemma hex_of_nat_lt16: "n < 16 \<Longrightarrow> hex_of_nat n = [hex_digit n]"
  by (simp add: hex_of_nat.simps)

lemma hex_of_nat_lt256:
  "16 \<le> n \<Longrightarrow> n < 256 \<Longrightarrow> hex_of_nat n = [hex_digit (n div 16), hex_digit (n mod 16)]"
  by (subst hex_of_nat.simps) (simp add: hex_of_nat_lt16 less_mult_imp_div_less)

lemma format_02x_byte:
  "0 \<le> n \<Longrightarrow> n < 256 \<Longrightarrow>
   format_02x n = [hex_digit (nat n div 16), hex_digit (nat n mod 16)]"
proof (cases "nat n < 16")
  case True
  assume "0 \<le> n"
  with True show ?thesis
    by (simp add: format_02x_def zero_pad_def hex_of_nat_lt16 hex_digit_def)
next
  case False
  assume "0 \<le> n" "n < 256"
  with False have "16 \<le> nat n" "nat n < 256" by simp_all
  then have "hex_of_nat (nat n) = [hex_digit (nat n div 16), hex_digit (nat n mod 16)]"
    by (rule hex_of_nat_lt256)
  with \<open>0 \<le> n\<close> show ?thesis
    by (simp add: format_02x_def zero_pad_def)
qed

text \<open>
  The unit in the last place of a normal value: between \<open>2 powi k\<close> and \<open>2 powi (k + 1)\<close>
  its exponent is \<open>k - 52\<close>.
\<close>

lemma bitlen_eq:
  assumes "2 ^ j \<le> n" and "n < 2 ^ (j + 1)"
  shows "bitlen n = int j + 1"
proof -
  have a: "bitlen n \<le> int j + 1"
    using assms(2) bitlen_le_iff_power [of n "int j + 1"] by (simp add: nat_add_distrib)
  have b: "int j + 1 \<le> bitlen n"
    using assms(1) bitlen_ge_iff_power [of "int j + 1" n] by (simp add: nat_add_distrib)
  from a b show ?thesis by simp
qed

lemma pow_shift:
  assumes "- 1074 \<le> k"
  shows "(2::real) ^ nat (k + 1074) = 2 powi k * 2 ^ 1074"
proof -
  have "(2::real) ^ nat (k + 1074) = 2 powi (k + 1074)"
    using assms by (simp add: power_int_def)
  also have "\<dots> = 2 powi k * 2 powi 1074" by (rule power_int_add) simp
  also have "(2::real) powi 1074 = 2 ^ 1074" by (rule power_int_numeral)
  finally show ?thesis .
qed

lemma ulp_exp_normal:
  assumes lo: "2 powi k \<le> \<bar>x\<bar>" and hi: "\<bar>x\<bar> < 2 powi (k + 1)" and k: "- 1022 \<le> k"
  shows "ulp_exp x = k - 52"
proof -
  define c :: real where "c = 2 ^ 1074"
  define n where "n = \<lfloor>\<bar>x\<bar> * c\<rfloor>"
  define j where "j = nat (k + 1074)"
  have c: "0 < c" by (simp add: c_def)
  from k have j: "int j = k + 1074" by (simp add: j_def)
  from k have j1: "j + 1 = nat (k + 1 + 1074)" by (simp add: j_def nat_add_distrib)
  from k have e1: "(2::real) ^ j = 2 powi k * c"
    unfolding j_def c_def by (intro pow_shift) simp
  from k have e2: "(2::real) ^ (j + 1) = 2 powi (k + 1) * c"
    unfolding j1 c_def by (intro pow_shift) simp
  from lo c have "(2::real) ^ j \<le> \<bar>x\<bar> * c" unfolding e1 by simp
  then have "of_int (2 ^ j) \<le> \<bar>x\<bar> * c" by simp
  then have l: "2 ^ j \<le> n" unfolding n_def by (simp only: le_floor_iff)
  from hi c have "\<bar>x\<bar> * c < (2::real) ^ (j + 1)" unfolding e2 by simp
  then have "\<bar>x\<bar> * c < of_int (2 ^ (j + 1))" by simp
  then have h: "n < 2 ^ (j + 1)" unfolding n_def by (simp only: floor_less_iff)
  from l h have "bitlen n = int j + 1" by (rule bitlen_eq)
  then have "bitlen \<lfloor>\<bar>x\<bar> * 2 ^ 1074\<rfloor> = k + 1075"
    unfolding n_def c_def j by simp
  then show ?thesis unfolding ulp_exp_def using k by simp
qed

text \<open>
  Below \<open>2 ^ 53\<close> the exponent of the unit in the last place is not positive, every
  integer is a multiple of the unit, and rounding does not cross an integer.
\<close>

lemma ulp_exp_small:
  assumes "\<bar>x\<bar> < 2 ^ 53"
  shows "ulp_exp x \<le> 0"
proof -
  have "\<bar>x\<bar> * 2 ^ 1074 < 2 ^ 53 * 2 ^ 1074" using assms by simp
  also have "\<dots> = (2::real) ^ 1127" by (simp only: power_add [symmetric]) simp
  finally have "\<bar>x\<bar> * 2 ^ 1074 < of_int (2 ^ 1127)" by simp
  then have "\<lfloor>\<bar>x\<bar> * 2 ^ 1074\<rfloor> < 2 ^ 1127" by (simp only: floor_less_iff)
  then have "bitlen \<lfloor>\<bar>x\<bar> * 2 ^ 1074\<rfloor> \<le> 1127"
    using bitlen_le_iff_power [of "\<lfloor>\<bar>x\<bar> * 2 ^ 1074\<rfloor>" 1127] by simp
  then show ?thesis by (simp add: ulp_exp_def)
qed

lemma floor_le_half_even: "\<lfloor>x\<rfloor> \<le> half_even x"
  by (simp add: half_even_def Let_def)

lemma half_even_le_ceiling: "half_even x \<le> \<lceil>x\<rceil>"
proof (cases "x - of_int \<lfloor>x\<rfloor> < 1 / 2")
  case True
  then have "half_even x = \<lfloor>x\<rfloor>" by (simp add: half_even_def Let_def)
  then show ?thesis by (simp add: floor_le_ceiling)
next
  case False
  then have "x \<noteq> of_int \<lfloor>x\<rfloor>" by auto
  then have "\<lceil>x\<rceil> = \<lfloor>x\<rfloor> + 1" by (simp add: ceiling_altdef)
  then show ?thesis by (simp add: half_even_def Let_def)
qed

lemma half_even_ge_int:
  assumes "of_int n \<le> x"
  shows "n \<le> half_even x"
proof -
  from assms have "n \<le> \<lfloor>x\<rfloor>" by (simp only: le_floor_iff)
  with floor_le_half_even [of x] show ?thesis by simp
qed

lemma half_even_le_int:
  assumes "x \<le> of_int n"
  shows "half_even x \<le> n"
proof -
  from assms have "\<lceil>x\<rceil> \<le> n" by (simp only: ceiling_le_iff)
  with half_even_le_ceiling [of x] show ?thesis by simp
qed

lemma int_multiple_of_ulp:
  assumes "e \<le> 0"
  shows "of_int n / (2::real) powi e = of_int (n * 2 ^ nat (- e))"
proof -
  have "(2::real) powi e = inverse (2 powi (- e))" by (simp add: power_int_minus)
  also have "(2::real) powi (- e) = 2 ^ nat (- e)" using assms by (simp add: power_int_def)
  finally show ?thesis by (simp add: field_simps)
qed

lemma round_nearest_ge_int:
  assumes "\<bar>x\<bar> < 2 ^ 53" and "of_int n \<le> x"
  shows "of_int n \<le> round_nearest x"
proof -
  define e where "e = ulp_exp x"
  have e: "e \<le> 0" unfolding e_def using assms(1) by (rule ulp_exp_small)
  have p: "0 < (2::real) powi e" by simp
  from assms(2) p have "of_int n / 2 powi e \<le> x / 2 powi e"
    by (simp add: divide_right_mono)
  then have "of_int (n * 2 ^ nat (- e)) \<le> x / 2 powi e"
    by (simp only: int_multiple_of_ulp [OF e])
  then have "n * 2 ^ nat (- e) \<le> half_even (x / 2 powi e)" by (rule half_even_ge_int)
  then have "(of_int (n * 2 ^ nat (- e)) :: real) \<le> of_int (half_even (x / 2 powi e))"
    by (simp only: of_int_le_iff)
  then have "of_int n / 2 powi e \<le> (of_int (half_even (x / 2 powi e)) :: real)"
    by (simp only: int_multiple_of_ulp [OF e])
  with p have "of_int n \<le> of_int (half_even (x / 2 powi e)) * (2::real) powi e"
    by (simp add: pos_divide_le_eq)
  then show ?thesis by (simp add: round_nearest_def e_def)
qed

lemma round_nearest_le_int:
  assumes "\<bar>x\<bar> < 2 ^ 53" and "x \<le> of_int n"
  shows "round_nearest x \<le> of_int n"
proof -
  define e where "e = ulp_exp x"
  have e: "e \<le> 0" unfolding e_def using assms(1) by (rule ulp_exp_small)
  have p: "0 < (2::real) powi e" by simp
  from assms(2) p have "x / 2 powi e \<le> of_int n / 2 powi e"
    by (simp add: divide_right_mono)
  then have "x / 2 powi e \<le> of_int (n * 2 ^ nat (- e))"
    by (simp only: int_multiple_of_ulp [OF e])
  then have "half_even (x / 2 powi e) \<le> n * 2 ^ nat (- e)" by (rule half_even_le_int)
  then have "(of_int (half_even (x / 2 powi e)) :: real) \<le> of_int (n * 2 ^ nat (- e))"
    by (simp only: of_int_le_iff)
  then have "(of_int (half_even (x / 2 powi e)) :: real) \<le> of_int n / 2 powi e"
    by (simp only: int_multiple_of_ulp [OF e])
  with p have "of_int (half_even (x / 2 powi e)) * (2::real) powi e \<le> of_int n"
    by (simp add: pos_le_divide_eq)
  then show ?thesis by (simp add: round_nearest_def e_def)
qed

lemma round_nearest_int:
  assumes "\<bar>of_int n :: real\<bar> < 2 ^ 53"
  shows "round_nearest (of_int n) = of_int n"
  using round_nearest_ge_int [OF assms, of n] round_nearest_le_int [OF assms, of n] by simp

lemma round64_small:
  assumes "\<bar>x\<bar> < 2 ^ 53"
  shows "round64 x = Finite (round_nearest x)"
proof -
  have "- (2 ^ 53) \<le> x" "x \<le> 2 ^ 53" using assms by simp_all
  then have "of_int (- (2 ^ 53)) \<le> x" "x \<le> of_int (2 ^ 53)" by simp_all
  then have "of_int (- (2 ^ 53)) \<le> round_nearest x" "round_nearest x \<le> of_int (2 ^ 53)"
    using assms by (simp_all only: round_nearest_ge_int round_nearest_le_int)
  then have "\<bar>round_nearest x\<bar> \<le> 2 ^ 53" by simp
  moreover have "(2::real) ^ 53 < 2 ^ 1024" by simp
  ultimately have "\<not> 2 ^ 1024 \<le> \<bar>round_nearest x\<bar>" by linarith
  then show ?thesis by (simp add: round64_def Let_def)
qed

text \<open>The products of the examples.\<close>

lemma mul255_one: "fmul64 (Finite 255) (Finite 1) = Finite 255"
  using round_nearest_int [of 255] round64_small [of 255] by simp

lemma mul255_zero: "fmul64 (Finite 255) (Finite 0) = Finite 0"
  using round_nearest_int [of 0] round64_small [of 0] by simp

lemma mul255_half: "fmul64 (Finite 255) (Finite (1 / 2)) = Finite (255 / 2)"
proof -
  have "ulp_exp (255 * (1 / 2)) = 6 - 52"
    by (rule ulp_exp_normal) simp_all
  then have "round_nearest (255 * (1 / 2)) = 255 / 2"
    by (simp add: round_nearest_def half_even_def)
  with round64_small [of "255 * (1 / 2)"] show ?thesis by simp
qed

lemma mul255_quarter: "fmul64 (Finite 255) (Finite (1 / 4)) = Finite (255 / 4)"
proof -
  have "ulp_exp (255 * (1 / 4)) = 5 - 52"
    by (rule ulp_exp_normal) simp_all
  then have "round_nearest (255 * (1 / 4)) = 255 / 4"
    by (simp add: round_nearest_def half_even_def)
  with round64_small [of "255 * (1 / 4)"] show ?thesis by simp
qed

text \<open>
  \<open>5404319552844595 / 2 ^ 53\<close> is the \<^verbatim>\<open>float64\<close> value of the literal \<^verbatim>\<open>0.6\<close>. Its exact
  product with 255 lies below 153 by less than half a unit in the last place and the
  rounded product is 153.
\<close>

lemma round_nearest_six_tenths: "round_nearest (255 * (5404319552844595 / 2 ^ 53)) = 153"
proof -
  have "ulp_exp (255 * (5404319552844595 / 2 ^ 53)) = 7 - 52"
    by (rule ulp_exp_normal) simp_all
  then show ?thesis by (simp add: round_nearest_def half_even_def)
qed

lemma mul255_six_tenths:
  "fmul64 (Finite 255) (Finite (5404319552844595 / 2 ^ 53)) = Finite 153"
  using round64_small [of "255 * (5404319552844595 / 2 ^ 53)"] round_nearest_six_tenths
  by simp

text \<open>\<open>- 1152921504606847 / 2 ^ 59\<close> is the \<^verbatim>\<open>float64\<close> value of the literal \<^verbatim>\<open>-0.002\<close>.\<close>

lemma mul255_minus_two_thousandths:
  "fmul64 (Finite 255) (Finite (- 1152921504606847 / 2 ^ 59)) =
     Finite (- 2296835809958953 / 2 ^ 52)"
proof -
  have "ulp_exp (255 * (- 1152921504606847 / 2 ^ 59)) = - 1 - 52"
    by (rule ulp_exp_normal) simp_all
  then have "round_nearest (255 * (- 1152921504606847 / 2 ^ 59)) = - 2296835809958953 / 2 ^ 52"
    by (simp add: round_nearest_def half_even_def)
  with round64_small [of "255 * (- 1152921504606847 / 2 ^ 59)"] show ?thesis by simp
qed

lemma rgb_to_hex_component:
  assumes "0 \<le> c" "c \<le> 1"
  shows "astype_int (fmul64 (Finite 255) (Finite c)) = Some \<lfloor>round_nearest (255 * c)\<rfloor> \<and>
         format_02x \<lfloor>round_nearest (255 * c)\<rfloor> =
           [hex_digit (nat \<lfloor>round_nearest (255 * c)\<rfloor> div 16),
            hex_digit (nat \<lfloor>round_nearest (255 * c)\<rfloor> mod 16)] \<and>
         \<lfloor>255 * c\<rfloor> \<le> \<lfloor>round_nearest (255 * c)\<rfloor> \<and>
         \<lfloor>round_nearest (255 * c)\<rfloor> \<le> \<lceil>255 * c\<rceil> \<and>
         \<lfloor>round_nearest (255 * c)\<rfloor> \<le> 255"
proof -
  define y where "y = round_nearest (255 * c)"
  from assms have small: "\<bar>255 * c\<bar> < 2 ^ 53" by simp
  have "of_int \<lfloor>255 * c\<rfloor> \<le> y"
    unfolding y_def using small by (rule round_nearest_ge_int) simp
  then have f: "\<lfloor>255 * c\<rfloor> \<le> \<lfloor>y\<rfloor>" by (simp only: le_floor_iff)
  from assms have "0 \<le> \<lfloor>255 * c\<rfloor>" by simp
  with f have lo: "0 \<le> \<lfloor>y\<rfloor>" by linarith
  then have y0: "0 \<le> y" by (simp only: zero_le_floor)
  have "y \<le> of_int \<lceil>255 * c\<rceil>"
    unfolding y_def using small by (rule round_nearest_le_int) simp
  then have c: "\<lfloor>y\<rfloor> \<le> \<lceil>255 * c\<rceil>" by (simp add: floor_le_iff)
  from assms have "255 * c \<le> of_int 255" by simp
  then have "y \<le> of_int 255"
    unfolding y_def using small by (intro round_nearest_le_int)
  then have hi: "\<lfloor>y\<rfloor> \<le> 255" by (simp add: floor_le_iff)
  then have hi': "\<lfloor>y\<rfloor> < 256" by simp
  have "fmul64 (Finite 255) (Finite c) = Finite y"
    using round64_small [OF small] by (simp add: y_def)
  with y0 lo hi have "astype_int (fmul64 (Finite 255) (Finite c)) = Some \<lfloor>y\<rfloor>"
    by (simp add: astype_int_def trunc_def)
  with format_02x_byte [OF lo hi'] f c hi show ?thesis unfolding y_def by simp
qed

text \<open>
  C8. \<^verbatim>\<open>rgb_to_hex\<close> multiplies each component by 255, truncates the \<^verbatim>\<open>float64\<close>
  product toward zero and writes two lowercase hexadecimal digits per component. For
  components in \<open>[0, 1]\<close> the digits are those of the integer part of the rounded
  product, which is the integer part of \<open>255 \<cdot> c\<close> unless the product rounds up to the
  next integer. \<open>(1.0, 0.0, 0.0)\<close> gives \<open>#ff0000\<close>, \<open>(0.0, 0.0, 0.0)\<close> gives \<open>#000000\<close>
  and \<open>(0.5, 0.5, 0.5)\<close> gives \<open>#7f7f7f\<close>: 127.5 is truncated to 127, not rounded to 128.
  The component \<^verbatim>\<open>-0.002\<close> gives \<open>00\<close>: \<open>- 0.51\<close> is truncated toward zero, where
  rounding down would give \<open>- 1\<close>. The component \<^verbatim>\<open>0.6\<close> gives \<open>99\<close>: the product is
  \<open>153.0\<close> after rounding.
\<close>

theorem rgb_to_hex_truncates:
  "(\<forall>r g b. 0 \<le> r \<and> r \<le> 1 \<and> 0 \<le> g \<and> g \<le> 1 \<and> 0 \<le> b \<and> b \<le> 1 \<longrightarrow>
      rgb_to_hex (Finite r, Finite g, Finite b) =
        Some (''#'' @ [hex_digit (nat \<lfloor>round_nearest (255 * r)\<rfloor> div 16),
                       hex_digit (nat \<lfloor>round_nearest (255 * r)\<rfloor> mod 16)]
                   @ [hex_digit (nat \<lfloor>round_nearest (255 * g)\<rfloor> div 16),
                      hex_digit (nat \<lfloor>round_nearest (255 * g)\<rfloor> mod 16)]
                   @ [hex_digit (nat \<lfloor>round_nearest (255 * b)\<rfloor> div 16),
                      hex_digit (nat \<lfloor>round_nearest (255 * b)\<rfloor> mod 16)])) \<and>
   (\<forall>c. 0 \<le> c \<and> c \<le> 1 \<longrightarrow>
      \<lfloor>255 * c\<rfloor> \<le> \<lfloor>round_nearest (255 * c)\<rfloor> \<and>
      \<lfloor>round_nearest (255 * c)\<rfloor> \<le> \<lceil>255 * c\<rceil> \<and>
      \<lfloor>round_nearest (255 * c)\<rfloor> \<le> 255) \<and>
   rgb_to_hex (Finite 1, Finite 0, Finite 0) = Some ''#ff0000'' \<and>
   rgb_to_hex (Finite 0, Finite 0, Finite 0) = Some ''#000000'' \<and>
   rgb_to_hex (Finite (1 / 2), Finite (1 / 2), Finite (1 / 2)) = Some ''#7f7f7f'' \<and>
   rgb_to_hex (Finite (- 1152921504606847 / 2 ^ 59), Finite 0, Finite 0) = Some ''#000000'' \<and>
   rgb_to_hex (Finite (5404319552844595 / 2 ^ 53), Finite 0, Finite 0) = Some ''#990000''"
proof (intro conjI allI impI)
  fix r g b :: real
  assume a: "0 \<le> r \<and> r \<le> 1 \<and> 0 \<le> g \<and> g \<le> 1 \<and> 0 \<le> b \<and> b \<le> 1"
  then have "0 \<le> r" "r \<le> 1" "0 \<le> g" "g \<le> 1" "0 \<le> b" "b \<le> 1" by simp_all
  then show "rgb_to_hex (Finite r, Finite g, Finite b) =
        Some (''#'' @ [hex_digit (nat \<lfloor>round_nearest (255 * r)\<rfloor> div 16),
                       hex_digit (nat \<lfloor>round_nearest (255 * r)\<rfloor> mod 16)]
                   @ [hex_digit (nat \<lfloor>round_nearest (255 * g)\<rfloor> div 16),
                      hex_digit (nat \<lfloor>round_nearest (255 * g)\<rfloor> mod 16)]
                   @ [hex_digit (nat \<lfloor>round_nearest (255 * b)\<rfloor> div 16),
                      hex_digit (nat \<lfloor>round_nearest (255 * b)\<rfloor> mod 16)])"
    using rgb_to_hex_component [of r] rgb_to_hex_component [of g] rgb_to_hex_component [of b]
    by (simp add: rgb_to_hex_def vmap_def del: fmul64.simps)
next
  fix c :: real
  assume "0 \<le> c \<and> c \<le> 1"
  then have c: "0 \<le> c" "c \<le> 1" by simp_all
  from rgb_to_hex_component [OF c] show "\<lfloor>255 * c\<rfloor> \<le> \<lfloor>round_nearest (255 * c)\<rfloor>" by simp
  from rgb_to_hex_component [OF c] show "\<lfloor>round_nearest (255 * c)\<rfloor> \<le> \<lceil>255 * c\<rceil>" by simp
  from rgb_to_hex_component [OF c] show "\<lfloor>round_nearest (255 * c)\<rfloor> \<le> 255" by simp
next
  show "rgb_to_hex (Finite (- 1152921504606847 / 2 ^ 59), Finite 0, Finite 0) =
          Some ''#000000''"
    by (simp only: rgb_to_hex_def vmap_def prod.case mul255_minus_two_thousandths mul255_zero)
       (simp add: astype_int_def trunc_def format_02x_byte hex_digit_def)
next
  show "rgb_to_hex (Finite (5404319552844595 / 2 ^ 53), Finite 0, Finite 0) = Some ''#990000''"
    by (simp only: rgb_to_hex_def vmap_def prod.case mul255_six_tenths mul255_zero)
       (simp add: astype_int_def trunc_def format_02x_byte hex_digit_def)
qed (simp_all add: rgb_to_hex_def vmap_def mul255_one mul255_zero mul255_half
       astype_int_def trunc_def format_02x_byte hex_digit_def del: fmul64.simps)

theorem rgb_to_hex_truncates_witness:
  "(0::real) \<le> 5404319552844595 / 2 ^ 53 \<and> (5404319552844595::real) / 2 ^ 53 \<le> 1 \<and>
   rgb_to_hex (Finite (5404319552844595 / 2 ^ 53), Finite (1 / 4), Finite 1) =
     Some ''#993fff''"
proof -
  have q: "round_nearest (255 * (1 / 4)) = 255 / 4"
    using mul255_quarter round64_small [of "255 * (1 / 4)"] by simp
  have o: "round_nearest (255 * 1) = 255"
    using round_nearest_int [of 255] by simp
  have "rgb_to_hex (Finite (5404319552844595 / 2 ^ 53), Finite (1 / 4), Finite 1) =
        Some (''#'' @ [hex_digit (nat \<lfloor>round_nearest (255 * (5404319552844595 / 2 ^ 53))\<rfloor> div 16),
                       hex_digit (nat \<lfloor>round_nearest (255 * (5404319552844595 / 2 ^ 53))\<rfloor> mod 16)]
                   @ [hex_digit (nat \<lfloor>round_nearest (255 * (1 / 4))\<rfloor> div 16),
                      hex_digit (nat \<lfloor>round_nearest (255 * (1 / 4))\<rfloor> mod 16)]
                   @ [hex_digit (nat \<lfloor>round_nearest (255 * 1)\<rfloor> div 16),
                      hex_digit (nat \<lfloor>round_nearest (255 * 1)\<rfloor> mod 16)])"
    using rgb_to_hex_truncates by simp
  then show ?thesis
    unfolding round_nearest_six_tenths q o by (simp add: hex_digit_def)
qed

lemma rgb_to_hex_white: "rgb_to_hex (Finite 1, Finite 1, Finite 1) = Some ''#ffffff''"
  by (simp add: rgb_to_hex_def vmap_def mul255_one astype_int_def trunc_def format_02x_byte
      hex_digit_def del: fmul64.simps)

lemma rgb_to_hex_black: "rgb_to_hex (Finite 0, Finite 0, Finite 0) = Some ''#000000''"
  by (simp add: rgb_to_hex_def vmap_def mul255_zero astype_int_def trunc_def format_02x_byte
      hex_digit_def del: fmul64.simps)

subsection \<open>Finite values\<close>

lemma is_finite_iff: "is_finite x \<longleftrightarrow> (\<exists>r. x = Finite r)"
  by (cases x) simp_all

lemma is_finite_fadd: "is_finite (fadd u v) \<longleftrightarrow> is_finite u \<and> is_finite v"
  by (cases u; cases v) simp_all

lemma is_finite_fmul_left: "is_finite (fmul (Finite a) w) \<longleftrightarrow> is_finite w"
  by (cases w) (simp_all add: inf_of_sign_def)

lemma vall_is_finite_iff:
  "vall is_finite v \<longleftrightarrow> (\<exists>x y z. v = (Finite x, Finite y, Finite z))"
  by (cases v) (auto simp add: vall_def is_finite_iff)

lemma vmax_finite: "vmax (Finite x, Finite y, Finite z) = Finite (max (max x y) z)"
  by (simp add: vmax_def max_def)

lemma vmin_finite: "vmin (Finite x, Finite y, Finite z) = Finite (min (min x y) z)"
  by (simp add: vmin_def min_def)

lemma mat_dot_lift:
  "mat_dot (lift_mat ((a, b, c), (d, e, f), (g, h, i))) (Finite x, Finite y, Finite z) =
     (Finite (a * x + b * y + c * z), Finite (d * x + e * y + f * z),
      Finite (g * x + h * y + i * z))"
  by (simp add: mat_dot_def lift_mat_def lift3_def dot_def vmul_def vsum_def)

lemma dot_lift_finite:
  assumes "dot (lift3 (a, b, c)) w = Finite s"
  shows "\<exists>x y z. w = (Finite x, Finite y, Finite z)"
proof (cases w)
  case (fields w1 w2 w3)
  from assms have "is_finite (dot (lift3 (a, b, c)) w)" by simp
  with fields have "is_finite w1 \<and> is_finite w2 \<and> is_finite w3"
    by (simp add: dot_def lift3_def vmul_def vsum_def is_finite_fadd is_finite_fmul_left)
  with fields show ?thesis by (simp add: is_finite_iff)
qed

lemma scale_zero: "vall is_finite row \<Longrightarrow> scale (Finite 0) row = (Finite 0, Finite 0, Finite 0)"
  by (auto simp add: vall_is_finite_iff scale_def vmap_def)

lemma scale_finite: "vall is_finite row \<Longrightarrow> vall is_finite (scale (Finite s) row)"
  by (auto simp add: vall_is_finite_iff scale_def vmap_def)

lemma vadd_finite: "vall is_finite u \<Longrightarrow> vall is_finite v \<Longrightarrow> vall is_finite (vadd u v)"
  by (auto simp add: vall_is_finite_iff vadd_def)

subsection \<open>Construction\<close>

lemma inv3_is_inverse:
  assumes "inv3 m = Inr mi"
  shows "rmat_vec m (rmat_vec mi v) = v \<and> rmat_vec mi (rmat_vec m v) = v"
proof -
  obtain a b c d e f g h i where m: "m = ((a, b, c), (d, e, f), (g, h, i))"
    by (metis prod_cases3)
  obtain x y z where v: "v = (x, y, z)" by (metis prod_cases3)
  define dt where "dt = a * (e * i - f * h) - b * (d * i - f * g) + c * (d * h - e * g)"
  from assms have nz: "dt \<noteq> 0"
    by (auto simp add: inv3_def det3_def m dt_def Let_def split: if_splits)
  from assms nz have mi: "mi =
      (((e * i - f * h) / dt, (c * h - b * i) / dt, (b * f - c * e) / dt),
       ((f * g - d * i) / dt, (a * i - c * g) / dt, (c * d - a * f) / dt),
       ((d * h - e * g) / dt, (b * g - a * h) / dt, (a * e - b * d) / dt))"
    by (auto simp add: inv3_def det3_def m dt_def Let_def split: if_splits)
  have "x * dt / dt = x" "y * dt / dt = y" "z * dt / dt = z" using nz by simp_all
  show ?thesis
    using nz unfolding m v mi rmat_vec_def
    apply (simp add: divide_simps)
    apply (simp add: dt_def algebra_simps)
    done
qed

lemma init_fields:
  assumes "init tabs r g b w v = Inr cs"
  shows "white cs = w \<and> wscale cs = mat_dot (lift_mat (MI cs)) w \<and>
         T cs = row_div (lift_mat (MI cs)) (wscale cs)"
  using assms by (auto simp add: init_def Let_def split: sum.splits)

lemma init_succeeds_iff:
  "(\<exists>cs. init tabs r g b w v = Inr cs) \<longleftrightarrow>
   det3 (transpose3 (xyz_from_xy (fst r) (snd r), xyz_from_xy (fst g) (snd g),
                     xyz_from_xy (fst b) (snd b))) \<noteq> 0"
proof -
  obtain m11 m12 m13 m21 m22 m23 m31 m32 m33 where
    m: "transpose3 (xyz_from_xy (fst r) (snd r), xyz_from_xy (fst g) (snd g),
                     xyz_from_xy (fst b) (snd b)) = ((m11, m12, m13), (m21, m22, m23), (m31, m32, m33))"
    by (metis prod_cases3)
  show ?thesis
    by (simp add: init_def Let_def m inv3_def del: split_paired_Ex)
qed

lemma init_cmf_set:
  assumes "init tabs r g b w v = Inr cs"
  shows "cmf cs = (if v = 1931 then Some (cmf1931 tabs)
                   else if v = 1964 then Some (cmf1964 tabs) else None)"
  using assms by (auto simp add: init_def Let_def split: sum.splits)

lemma init_cmf_unset:
  assumes "v \<noteq> 1964" "v \<noteq> 1931" "init tabs r g b w v = Inr cs"
  shows "cmf cs = None"
  using assms by (auto simp add: init_def Let_def split: sum.splits)

lemma init_T_finite:
  assumes init: "init tabs r g b w v = Inr cs"
      and ws: "wscale cs = (Finite s1, Finite s2, Finite s3)"
      and nz: "s1 \<noteq> 0" "s2 \<noteq> 0" "s3 \<noteq> 0"
  shows "\<exists>m. T cs = lift_mat m"
proof -
  obtain a b' c d e f g' h i where mi: "MI cs = ((a, b', c), (d, e, f), (g', h, i))"
    by (metis prod_cases3)
  from init_fields [OF init] have "T cs = row_div (lift_mat (MI cs)) (wscale cs)"
    by simp
  with nz have "T cs = lift_mat ((a / s1, b' / s1, c / s1), (d / s2, e / s2, f / s2),
                       (g' / s3, h / s3, i / s3))"
    by (simp add: mi ws row_div_def lift_mat_def lift3_def vmap_def)
  then show ?thesis ..
qed

lemma cs_srgb_value: "cs_srgb tabs = Inr (srgb_value tabs)"
  by (simp add: cs_srgb_def srgb_value_def init_def xyz_from_xy_def transpose3_def inv3_def
      det3_def Let_def illuminant_D65_def xy_to_xyz_def lift3_def lift_mat_def mat_dot_def
      dot_def vmul_def vsum_def row_div_def vmap_def)

text \<open>
  C5, on the code. \<^verbatim>\<open>__init__\<close> with \<open>cmf = 2000\<close> and the sRGB primaries raises
  nothing: it returns the sRGB instance with the attribute \<open>cmf\<close> never set, and the
  first \<open>spec_to_xyz\<close> on that instance raises \<^verbatim>\<open>AttributeError\<close>. Lemma
  \<open>init_succeeds_iff\<close> shows that the variant plays no part in whether construction
  succeeds, and \<open>init_cmf_unset\<close> that every other variant leaves the table unset.
\<close>

theorem init_unknown_cmf_variant:
  "init flat_tables (0.64, 0.33) (0.30, 0.60) (0.15, 0.06) illuminant_D65 2000 =
     Inr ((srgb_value flat_tables)\<lparr>cmf := None\<rparr>) \<and>
   spec_to_xyz ((srgb_value flat_tables)\<lparr>cmf := None\<rparr>) (replicate 81 (Finite 0)) =
     Inl AttributeError"
  by (simp add: srgb_value_def init_def xyz_from_xy_def transpose3_def inv3_def
      det3_def Let_def illuminant_D65_def xy_to_xyz_def lift3_def lift_mat_def mat_dot_def
      dot_def vmul_def vsum_def row_div_def vmap_def spec_to_xyz_def)

subsection \<open>Desaturation and normalisation\<close>

lemma desaturate_finite:
  "desaturate (Finite a, Finite b, Finite c) =
     (if a < 0 \<or> b < 0 \<or> c < 0
      then (Finite (a - min (min a b) c), Finite (b - min (min a b) c),
            Finite (c - min (min a b) c))
      else (Finite a, Finite b, Finite c))"
  by (simp add: desaturate_def vany_def vmin_def vmap_def min_def)

lemma normalize_finite:
  "0 \<le> a \<Longrightarrow> 0 \<le> b \<Longrightarrow> 0 \<le> c \<Longrightarrow>
   normalize (Finite a, Finite b, Finite c) =
     (if a = 0 \<and> b = 0 \<and> c = 0 then (Finite 0, Finite 0, Finite 0)
      else (Finite (a / max (max a b) c), Finite (b / max (max a b) c),
            Finite (c / max (max a b) c)))"
  by (auto simp add: normalize_def vall_def vmax_def vmap_def max_def)

lemma desaturate_not_neg:
  "desaturate v = (a, b, c) \<Longrightarrow>
   \<not> flt a (Finite 0) \<and> \<not> flt b (Finite 0) \<and> \<not> flt c (Finite 0)"
proof (cases v)
  case (fields x y z)
  assume "desaturate v = (a, b, c)"
  with fields show ?thesis
    by (cases x; cases y; cases z)
       (auto simp add: desaturate_def vany_def vmin_def vmap_def split: if_splits)
qed

lemma normalize_not_neg:
  "\<not> flt x (Finite 0) \<Longrightarrow> \<not> flt y (Finite 0) \<Longrightarrow> \<not> flt z (Finite 0) \<Longrightarrow>
   normalize (x, y, z) = (a, b, c) \<Longrightarrow>
   \<not> flt a (Finite 0) \<and> \<not> flt b (Finite 0) \<and> \<not> flt c (Finite 0)"
  by (cases x; cases y; cases z)
     (auto simp add: normalize_def vall_def vmax_def vmap_def inf_of_sign_def
        divide_less_0_iff split: if_splits)

lemma desaturate_finite_nonneg:
  assumes "desaturate (Finite x, Finite y, Finite z) = (a, b, c)"
  shows "\<exists>a' b' c'. a = Finite a' \<and> b = Finite b' \<and> c = Finite c' \<and>
           0 \<le> a' \<and> 0 \<le> b' \<and> 0 \<le> c'"
  using assms by (auto simp add: desaturate_finite split: if_splits)

lemma desaturate_of_finite:
  assumes "T cs = lift_mat m"
  shows "\<exists>a b c. desaturate (mat_dot (T cs) (Finite x, Finite y, Finite z)) =
                   (Finite a, Finite b, Finite c)"
proof -
  obtain m1 m2 m3 m4 m5 m6 m7 m8 m9 where m: "m = ((m1, m2, m3), (m4, m5, m6), (m7, m8, m9))"
    by (metis prod_cases3)
  show ?thesis
    by (simp add: assms m mat_dot_lift desaturate_finite)
qed

lemma max3_pos:
  "0 \<le> (a::real) \<Longrightarrow> 0 \<le> b \<Longrightarrow> 0 \<le> c \<Longrightarrow> \<not> (a = 0 \<and> b = 0 \<and> c = 0) \<Longrightarrow>
   0 < max (max a b) c"
  by (auto simp add: max_def)

lemma max3_div:
  "0 < max (max a b) c \<Longrightarrow>
   max (max (a / max (max a b) c) (b / max (max a b) c)) (c / max (max a b) c) = (1::real)"
  by (auto simp add: max_def divide_le_eq divide_simps)

lemma min3_shift: "min (min (x - m) (y - m)) (z - m) = (0::real)" if "m = min (min x y) z"
  using that by (simp add: min_def)

lemma srgb_example_rgb:
  "mat_dot (T (srgb_value tabs)) (Finite (1 / 10), Finite (4 / 5), Finite (1 / 10)) =
     (Finite (- (46000 / 15831)), Finite (37610 / 8793), Finite (- (14000 / 88677)))"
  by (simp add: srgb_value_def mat_dot_def dot_def vmul_def vsum_def)

subsection \<open>From XYZ to RGB\<close>

text \<open>
  C3. No component of the fractional vector that \<open>xyz_to_rgb\<close> returns is negative,
  for every transform and every input (a NaN component is not negative either). When
  \<open>T \<cdot> xyz\<close> is finite the result is finite with components \<open>\<ge> 0\<close>; if one of its
  components is negative, desaturation adds \<open>- min\<close> to all three, which brings the
  smallest to exactly zero, and normalisation divides by a positive maximum.
\<close>

theorem xyz_to_rgb_not_negative:
  "\<exists>r g b. xyz_to_rgb cs xyz None = Frac (r, g, b) \<and>
     \<not> flt r (Finite 0) \<and> \<not> flt g (Finite 0) \<and> \<not> flt b (Finite 0) \<and>
     (\<forall>x y z. mat_dot (T cs) xyz = (Finite x, Finite y, Finite z) \<longrightarrow>
        (\<exists>r' g' b'. r = Finite r' \<and> g = Finite g' \<and> b = Finite b' \<and>
           0 \<le> r' \<and> 0 \<le> g' \<and> 0 \<le> b') \<and>
        (x < 0 \<or> y < 0 \<or> z < 0 \<longrightarrow>
           desaturate (Finite x, Finite y, Finite z) =
             (Finite (x - min (min x y) z), Finite (y - min (min x y) z),
              Finite (z - min (min x y) z)) \<and>
           vmin (desaturate (Finite x, Finite y, Finite z)) = Finite 0))"
proof -
  obtain a b c where des: "desaturate (mat_dot (T cs) xyz) = (a, b, c)"
    by (metis prod_cases3)
  obtain r g b' where nor: "normalize (a, b, c) = (r, g, b')"
    by (metis prod_cases3)
  have res: "xyz_to_rgb cs xyz None = Frac (r, g, b')"
    by (simp add: xyz_to_rgb_def des nor)
  from desaturate_not_neg [OF des]
  have nn: "\<not> flt a (Finite 0)" "\<not> flt b (Finite 0)" "\<not> flt c (Finite 0)"
    by simp_all
  have nneg: "\<not> flt r (Finite 0) \<and> \<not> flt g (Finite 0) \<and> \<not> flt b' (Finite 0)"
    using nn nor by (rule normalize_not_neg)
  have fin: "(\<exists>r' g' b''. r = Finite r' \<and> g = Finite g' \<and> b' = Finite b'' \<and>
           0 \<le> r' \<and> 0 \<le> g' \<and> 0 \<le> b'') \<and>
        (x < 0 \<or> y < 0 \<or> z < 0 \<longrightarrow>
           desaturate (Finite x, Finite y, Finite z) =
             (Finite (x - min (min x y) z), Finite (y - min (min x y) z),
              Finite (z - min (min x y) z)) \<and>
           vmin (desaturate (Finite x, Finite y, Finite z)) = Finite 0)"
    if m: "mat_dot (T cs) xyz = (Finite x, Finite y, Finite z)" for x y z
  proof
    from des m have d: "desaturate (Finite x, Finite y, Finite z) = (a, b, c)" by simp
    from desaturate_finite_nonneg [OF d] obtain a' b'' c' where
      abc: "a = Finite a'" "b = Finite b''" "c = Finite c'" and
      pos: "0 \<le> a'" "0 \<le> b''" "0 \<le> c'"
      by blast
    from pos have mx: "0 \<le> max (max a' b'') c'" by (simp add: max_def)
    from nor pos mx show "\<exists>r' g' b''. r = Finite r' \<and> g = Finite g' \<and> b' = Finite b'' \<and>
           0 \<le> r' \<and> 0 \<le> g' \<and> 0 \<le> b''"
      by (auto simp add: abc normalize_finite split: if_splits)
    show "x < 0 \<or> y < 0 \<or> z < 0 \<longrightarrow>
           desaturate (Finite x, Finite y, Finite z) =
             (Finite (x - min (min x y) z), Finite (y - min (min x y) z),
              Finite (z - min (min x y) z)) \<and>
           vmin (desaturate (Finite x, Finite y, Finite z)) = Finite 0"
      by (simp add: desaturate_finite vmin_finite min3_shift)
  qed
  from res nneg fin show ?thesis by blast
qed

theorem xyz_to_rgb_not_negative_witness:
  "mat_dot (T (srgb_value flat_tables)) (Finite (1 / 10), Finite (4 / 5), Finite (1 / 10)) =
     (Finite (- (46000 / 15831)), Finite (37610 / 8793), Finite (- (14000 / 88677))) \<and>
   (\<exists>r g b. xyz_to_rgb (srgb_value flat_tables)
              (Finite (1 / 10), Finite (4 / 5), Finite (1 / 10)) None
            = Frac (Finite r, Finite g, Finite b) \<and> 0 \<le> r \<and> 0 \<le> g \<and> 0 \<le> b) \<and>
   vmin (desaturate (Finite (- (46000 / 15831)), Finite (37610 / 8793),
                     Finite (- (14000 / 88677)))) = Finite 0"
proof -
  have m: "mat_dot (T (srgb_value flat_tables)) (Finite (1 / 10), Finite (4 / 5), Finite (1 / 10)) =
     (Finite (- (46000 / 15831)), Finite (37610 / 8793), Finite (- (14000 / 88677)))"
    by (rule srgb_example_rgb)
  have neg: "- (46000 / 15831) < (0::real)" by simp
  from xyz_to_rgb_not_negative
    [of "srgb_value flat_tables" "(Finite (1 / 10), Finite (4 / 5), Finite (1 / 10))"]
  obtain r g b where
    res: "xyz_to_rgb (srgb_value flat_tables)
            (Finite (1 / 10), Finite (4 / 5), Finite (1 / 10)) None = Frac (r, g, b)" and
    fin: "\<forall>x y z. mat_dot (T (srgb_value flat_tables))
                    (Finite (1 / 10), Finite (4 / 5), Finite (1 / 10)) =
                  (Finite x, Finite y, Finite z) \<longrightarrow>
        (\<exists>r' g' b'. r = Finite r' \<and> g = Finite g' \<and> b = Finite b' \<and>
           0 \<le> r' \<and> 0 \<le> g' \<and> 0 \<le> b') \<and>
        (x < 0 \<or> y < 0 \<or> z < 0 \<longrightarrow>
           desaturate (Finite x, Finite y, Finite z) =
             (Finite (x - min (min x y) z), Finite (y - min (min x y) z),
              Finite (z - min (min x y) z)) \<and>
           vmin (desaturate (Finite x, Finite y, Finite z)) = Finite 0)"
    by (elim exE conjE) (rule that; assumption)
  from fin m neg have
    "(\<exists>r' g' b'. r = Finite r' \<and> g = Finite g' \<and> b = Finite b' \<and>
           0 \<le> r' \<and> 0 \<le> g' \<and> 0 \<le> b')" and
    "vmin (desaturate (Finite (- (46000 / 15831)), Finite (37610 / 8793),
                     Finite (- (14000 / 88677)))) = Finite 0"
    by blast+
  with res m show ?thesis by blast
qed

text \<open>
  C2. When the vector after the desaturation step is finite and not all zero,
  \<open>xyz_to_rgb\<close> returns it divided by its largest component, which is positive: the
  largest component of the result is exactly 1 and the others keep their proportions.
\<close>

theorem xyz_to_rgb_max_is_one:
  assumes des: "desaturate (mat_dot (T cs) xyz) = (Finite a, Finite b, Finite c)"
      and nz: "\<not> (a = 0 \<and> b = 0 \<and> c = 0)"
  shows "0 < max (max a b) c \<and>
         xyz_to_rgb cs xyz None =
           Frac (Finite (a / max (max a b) c), Finite (b / max (max a b) c),
                 Finite (c / max (max a b) c)) \<and>
         max (max (a / max (max a b) c) (b / max (max a b) c)) (c / max (max a b) c) = 1 \<and>
         (\<forall>v. xyz_to_rgb cs xyz None = Frac v \<longrightarrow> vmax v = Finite 1)"
proof -
  from desaturate_not_neg [OF des] have nn: "0 \<le> a" "0 \<le> b" "0 \<le> c"
    by simp_all
  from nn nz have pos: "0 < max (max a b) c"
    by (rule max3_pos)
  from nn nz have res: "xyz_to_rgb cs xyz None =
      Frac (Finite (a / max (max a b) c), Finite (b / max (max a b) c),
            Finite (c / max (max a b) c))"
    by (simp add: xyz_to_rgb_def des normalize_finite)
  have one: "max (max (a / max (max a b) c) (b / max (max a b) c)) (c / max (max a b) c) = 1"
    using pos by (rule max3_div)
  have "vmax (Finite (a / max (max a b) c), Finite (b / max (max a b) c),
            Finite (c / max (max a b) c)) = Finite 1"
    by (simp only: vmax_finite one)
  with res have all: "\<forall>v. xyz_to_rgb cs xyz None = Frac v \<longrightarrow> vmax v = Finite 1"
    by (simp only: rgb_out.inject) blast
  from pos res one all show ?thesis by blast
qed

theorem xyz_to_rgb_max_is_one_witness:
  "desaturate (mat_dot (T (srgb_value flat_tables)) (Finite (1 / 10), Finite (4 / 5), Finite (1 / 10)))
     = (Finite 0, Finite (111097990 / 15466887), Finite (428612000 / 155982843)) \<and>
   xyz_to_rgb (srgb_value flat_tables) (Finite (1 / 10), Finite (4 / 5), Finite (1 / 10)) None
     = Frac (Finite 0, Finite 1, Finite (504522800 / 1318853609))"
proof -
  have h: "desaturate (mat_dot (T (srgb_value flat_tables)) (Finite (1 / 10), Finite (4 / 5), Finite (1 / 10)))
     = (Finite 0, Finite (111097990 / 15466887), Finite (428612000 / 155982843))"
    by (simp add: srgb_example_rgb desaturate_finite)
  from xyz_to_rgb_max_is_one [OF h] h show ?thesis by simp
qed

text \<open>
  C10. With a transform of finite entries, the all-zero XYZ input gives the all-zero
  vector: no component is negative, so the desaturation is skipped, all components are
  zero, so the normalisation is skipped, and \<open>out_fmt = 'html'\<close> gives \<open>#000000\<close>.
\<close>

theorem xyz_to_rgb_zero:
  assumes fin: "T cs = lift_mat m"
  shows "mat_dot (T cs) (Finite 0, Finite 0, Finite 0) = (Finite 0, Finite 0, Finite 0) \<and>
         \<not> vany (\<lambda>c. flt c (Finite 0)) (mat_dot (T cs) (Finite 0, Finite 0, Finite 0)) \<and>
         vall (\<lambda>c. feq c (Finite 0)) (desaturate (mat_dot (T cs) (Finite 0, Finite 0, Finite 0))) \<and>
         xyz_to_rgb cs (Finite 0, Finite 0, Finite 0) None = Frac (Finite 0, Finite 0, Finite 0) \<and>
         xyz_to_rgb cs (Finite 0, Finite 0, Finite 0) (Some ''html'') = Html (Some ''#000000'')"
proof -
  obtain a b c d e f g h i where m: "m = ((a, b, c), (d, e, f), (g, h, i))"
    by (metis prod_cases3)
  have z: "mat_dot (T cs) (Finite 0, Finite 0, Finite 0) = (Finite 0, Finite 0, Finite 0)"
    by (simp add: fin m mat_dot_lift)
  have d: "desaturate (Finite 0, Finite 0, Finite 0) = (Finite 0, Finite 0, Finite 0)"
    by (simp add: desaturate_finite)
  have n: "normalize (Finite 0, Finite 0, Finite 0) = (Finite 0, Finite 0, Finite 0)"
    by (simp add: normalize_finite)
  show ?thesis
    by (simp add: z d n xyz_to_rgb_def rgb_to_hex_black vany_def vall_def)
qed

theorem xyz_to_rgb_zero_witness:
  "T (srgb_value flat_tables) =
     lift_mat ((52000 / 5277, - (74000 / 15831), - (8000 / 5277)),
               (- (8630 / 2931), 50110 / 8793, 370 / 2931),
               (5000 / 29559, - (55000 / 88677), 95000 / 29559)) \<and>
   xyz_to_rgb (srgb_value flat_tables) (Finite 0, Finite 0, Finite 0) None
     = Frac (Finite 0, Finite 0, Finite 0) \<and>
   xyz_to_rgb (srgb_value flat_tables) (Finite 0, Finite 0, Finite 0) (Some ''html'')
     = Html (Some ''#000000'')"
proof -
  have h: "T (srgb_value flat_tables) =
     lift_mat ((52000 / 5277, - (74000 / 15831), - (8000 / 5277)),
               (- (8630 / 2931), 50110 / 8793, 370 / 2931),
               (5000 / 29559, - (55000 / 88677), 95000 / 29559))"
    by (simp add: srgb_value_def lift_mat_def lift3_def)
  from xyz_to_rgb_zero [OF h] h show ?thesis by blast
qed

lemma row_one:
  "s \<noteq> 0 \<Longrightarrow> a * x + b * y + c * z = s \<Longrightarrow> a / s * x + b / s * y + c / s * z = (1::real)"
  by (simp add: field_simps)

text \<open>
  C1. A colour system whose basis matrix is invertible (\<open>init\<close> returns an instance) and
  whose white-scaling vector has positive components maps its own white point to the
  fractional vector \<open>(1, 1, 1)\<close>, and to \<open>#ffffff\<close> with \<open>out_fmt = 'html'\<close>. In exact
  arithmetic the result is exactly \<open>(1, 1, 1)\<close>; the witness is the sRGB system with
  white \<open>xy_to_xyz 0.3127 0.3291\<close>.
\<close>

theorem white_point_maps_to_white:
  assumes init: "init tabs r g b w v = Inr cs"
      and ws: "wscale cs = (Finite s1, Finite s2, Finite s3)"
      and pos: "0 < s1" "0 < s2" "0 < s3"
  shows "xyz_to_rgb cs (white cs) None = Frac (Finite 1, Finite 1, Finite 1) \<and>
         xyz_to_rgb cs (white cs) (Some ''html'') = Html (Some ''#ffffff'')"
proof -
  define mi where "mi = MI cs"
  from init_fields [OF init] have
    wh: "white cs = w" and wsd: "wscale cs = mat_dot (lift_mat mi) w" and
    t: "T cs = row_div (lift_mat mi) (wscale cs)"
    by (simp_all add: mi_def)
  obtain a b' c d e f g' h i where mi: "mi = ((a, b', c), (d, e, f), (g', h, i))"
    by (metis prod_cases3)
  from wsd ws have "dot (lift3 (a, b', c)) w = Finite s1"
    by (simp add: mi mat_dot_def lift_mat_def)
  then obtain x y z where w: "w = (Finite x, Finite y, Finite z)"
    using dot_lift_finite by blast
  from wsd ws have eqs: "a * x + b' * y + c * z = s1" "d * x + e * y + f * z = s2"
      "g' * x + h * y + i * z = s3"
    by (simp_all add: mi w mat_dot_lift)
  from pos have nz: "s1 \<noteq> 0" "s2 \<noteq> 0" "s3 \<noteq> 0" by simp_all
  have "mat_dot (T cs) (white cs) = (Finite 1, Finite 1, Finite 1)"
    using nz row_one [OF nz(1) eqs(1)] row_one [OF nz(2) eqs(2)] row_one [OF nz(3) eqs(3)]
    by (simp add: t ws wh w mi row_div_def lift_mat_def lift3_def vmap_def mat_dot_def dot_def
        vmul_def vsum_def)
  then have "normalize (desaturate (mat_dot (T cs) (white cs))) = (Finite 1, Finite 1, Finite 1)"
    by (simp add: desaturate_finite normalize_finite)
  then show ?thesis
    by (simp add: xyz_to_rgb_def rgb_to_hex_white)
qed

theorem white_point_maps_to_white_witness:
  "cs_srgb flat_tables = Inr (srgb_value flat_tables) \<and>
   wscale (srgb_value flat_tables) =
     (Finite (1759 / 8300), Finite (977 / 2490), Finite (9853 / 24900)) \<and>
   white (srgb_value flat_tables) = xy_to_xyz 0.3127 0.3291 \<and>
   xy_to_rgb (srgb_value flat_tables) 0.3127 0.3291 None = Frac (Finite 1, Finite 1, Finite 1) \<and>
   xy_to_rgb (srgb_value flat_tables) 0.3127 0.3291 (Some ''html'') = Html (Some ''#ffffff'')"
proof -
  have i: "init flat_tables (0.64, 0.33) (0.30, 0.60) (0.15, 0.06) illuminant_D65 1964
             = Inr (srgb_value flat_tables)"
    using cs_srgb_value [of flat_tables] by (simp add: cs_srgb_def)
  have ws: "wscale (srgb_value flat_tables) =
     (Finite (1759 / 8300), Finite (977 / 2490), Finite (9853 / 24900))"
    by (simp add: srgb_value_def)
  have wh: "white (srgb_value flat_tables) = xy_to_xyz 0.3127 0.3291"
    by (simp add: srgb_value_def xy_to_xyz_def xyz_from_xy_def lift3_def)
  from white_point_maps_to_white [OF i ws] wh ws cs_srgb_value [of flat_tables]
  show ?thesis by (simp add: xy_to_rgb_def)
qed

subsection \<open>From a spectrum to XYZ and to chromaticity\<close>

lemma map2_scale_zero:
  "\<forall>row \<in> set tab. vall is_finite row \<Longrightarrow>
   map2 scale (replicate (length tab) (Finite 0)) tab =
     replicate (length tab) (Finite 0, Finite 0, Finite 0)"
  by (induction tab) (simp_all add: scale_zero)

lemma foldl_vadd_zero:
  "foldl vadd (Finite 0, Finite 0, Finite 0) (replicate n (Finite 0, Finite 0, Finite 0)) =
     (Finite 0, Finite 0, Finite 0)"
  by (induction n) (simp_all add: vadd_def)

lemma foldl_vadd_finite:
  "vall is_finite acc \<Longrightarrow> \<forall>row \<in> set rows. vall is_finite row \<Longrightarrow>
   vall is_finite (foldl vadd acc rows)"
  by (induction rows arbitrary: acc) (simp_all add: vadd_finite)

lemma map2_scale_finite:
  "\<forall>s \<in> set spec. is_finite s \<Longrightarrow> \<forall>row \<in> set tab. vall is_finite row \<Longrightarrow>
   \<forall>row \<in> set (map2 scale spec tab). vall is_finite row"
proof (induction spec arbitrary: tab)
  case Nil
  then show ?case by simp
next
  case (Cons s spec)
  show ?case
  proof (cases tab)
    case Nil
    then show ?thesis by simp
  next
    case (Cons row tab')
    from Cons.prems(1) obtain r where s: "s = Finite r"
      by (auto simp add: is_finite_iff)
    from Cons.prems(2) Cons have "vall is_finite (scale s row)"
      by (simp add: s scale_finite)
    moreover from Cons.IH [of tab'] Cons.prems Cons
    have "\<forall>row \<in> set (map2 scale spec tab'). vall is_finite row"
      by simp
    ultimately show ?thesis using Cons by simp
  qed
qed

lemma raw_xyz_zero:
  assumes "\<forall>row \<in> set tab. vall is_finite row"
  shows "raw_xyz tab (replicate (length tab) (Finite 0)) = Inr (Finite 0, Finite 0, Finite 0)"
  using assms
  by (simp add: raw_xyz_def broadcast_rows_def sum_axis0_def map2_scale_zero foldl_vadd_zero)

lemma raw_xyz_finite:
  assumes "length spec = length tab" "\<forall>s \<in> set spec. is_finite s"
    "\<forall>row \<in> set tab. vall is_finite row"
  shows "\<exists>X Y Z. raw_xyz tab spec = Inr (Finite X, Finite Y, Finite Z)"
proof -
  have "vall is_finite (sum_axis0 (map2 scale spec tab))"
    unfolding sum_axis0_def
  proof (rule foldl_vadd_finite)
    show "vall is_finite (Finite 0, Finite 0, Finite 0)" by (simp add: vall_def)
    from assms(2,3) show "\<forall>row \<in> set (map2 scale spec tab). vall is_finite row"
      by (rule map2_scale_finite)
  qed
  with assms(1) show ?thesis
    by (simp add: raw_xyz_def broadcast_rows_def vall_is_finite_iff)
qed

lemma spec_to_xyz_zero:
  assumes "cmf cs = Some tab" "\<forall>row \<in> set tab. vall is_finite row"
  shows "spec_to_xyz cs (replicate (length tab) (Finite 0)) = Inr (Finite 0, Finite 0, Finite 0)"
  using assms by (simp add: spec_to_xyz_def raw_xyz_zero vsum_def Let_def)

lemma spec_to_xyz_normalised:
  assumes "cmf cs = Some tab" "raw_xyz tab spec = Inr (Finite X, Finite Y, Finite Z)"
    "X + Y + Z \<noteq> 0"
  shows "spec_to_xyz cs spec =
           Inr (Finite (X / (X + Y + Z)), Finite (Y / (X + Y + Z)), Finite (Z / (X + Y + Z)))"
  using assms by (simp add: spec_to_xyz_def vsum_def vmap_def Let_def)

lemma normalised_sum:
  "d \<noteq> 0 \<Longrightarrow> X + Y + Z = d \<Longrightarrow> X / d + Y / d + Z / d = (1::real)"
  by (simp add: field_simps)

lemma spec_to_xyz_returns:
  assumes "cmf cs = Some tab" "broadcast_rows spec tab = Inr rows"
  shows "\<exists>v. spec_to_xyz cs spec = Inr v"
proof (cases "feq (vsum (sum_axis0 rows)) (Finite 0)")
  case True
  with assms have "spec_to_xyz cs spec = Inr (sum_axis0 rows)"
    by (simp add: spec_to_xyz_def raw_xyz_def Let_def)
  then show ?thesis ..
next
  case False
  with assms have "spec_to_xyz cs spec =
      Inr (vmap (\<lambda>c. fdiv c (vsum (sum_axis0 rows))) (sum_axis0 rows))"
    by (simp add: spec_to_xyz_def raw_xyz_def Let_def)
  then show ?thesis ..
qed

lemma foldl_vadd_replicate:
  "foldl vadd (Finite x, Finite y, Finite z) (replicate n (Finite p, Finite q, Finite r)) =
     (Finite (x + real n * p), Finite (y + real n * q), Finite (z + real n * r))"
  by (induction n arbitrary: x y z) (simp_all add: vadd_def algebra_simps)

lemma foldl_fadd_replicate:
  "foldl fadd (Finite x) (replicate n (Finite p)) = Finite (x + real n * p)"
  by (induction n arbitrary: x) (simp_all add: algebra_simps)

lemma flat_cmf: "cmf (srgb_value flat_tables) = Some (replicate 81 (Finite 1, Finite 1, Finite 1))"
  by (simp add: srgb_value_def flat_tables_def)

lemma flat_raw_two:
  "raw_xyz (replicate 81 (Finite 1, Finite 1, Finite 1)) (replicate 81 (Finite 2)) =
     Inr (Finite 162, Finite 162, Finite 162)"
  by (simp add: raw_xyz_def broadcast_rows_def sum_axis0_def scale_def vmap_def
      foldl_vadd_replicate)

lemma flat_raw_single:
  "raw_xyz (replicate 81 (Finite 1, Finite 1, Finite 1)) [Finite 2] =
     Inr (Finite 162, Finite 162, Finite 162)"
  by (simp add: raw_xyz_def broadcast_rows_def sum_axis0_def scale_def vmap_def
      foldl_vadd_replicate)

text \<open>
  C4. On an instance whose CMF table is set, has 81 rows and finite entries,
  \<open>spec_to_xyz\<close> of the all-zero spectrum of length 81 returns the all-zero vector: no
  error and no NaN. Every finite spectrum of length 81 has a finite raw vector
  \<open>(X, Y, Z)\<close>, and when \<open>X + Y + Z \<noteq> 0\<close> the result is the raw vector divided by that sum,
  whose components add up to 1.
\<close>

theorem spec_to_xyz_guard_and_normalise:
  assumes cmf: "cmf cs = Some tab" and len: "length tab = 81"
      and fin: "\<forall>row \<in> set tab. vall is_finite row"
  shows "spec_to_xyz cs (replicate 81 (Finite 0)) = Inr (Finite 0, Finite 0, Finite 0) \<and>
         (\<forall>spec. length spec = 81 \<and> (\<forall>s \<in> set spec. is_finite s) \<longrightarrow>
            (\<exists>X Y Z. raw_xyz tab spec = Inr (Finite X, Finite Y, Finite Z))) \<and>
         (\<forall>spec X Y Z.
            length spec = 81 \<and> raw_xyz tab spec = Inr (Finite X, Finite Y, Finite Z) \<and>
            X + Y + Z \<noteq> 0 \<longrightarrow>
            spec_to_xyz cs spec =
              Inr (Finite (X / (X + Y + Z)), Finite (Y / (X + Y + Z)),
                   Finite (Z / (X + Y + Z))) \<and>
            X / (X + Y + Z) + Y / (X + Y + Z) + Z / (X + Y + Z) = 1)"
proof (intro conjI allI impI)
  from spec_to_xyz_zero [OF cmf fin] len
  show "spec_to_xyz cs (replicate 81 (Finite 0)) = Inr (Finite 0, Finite 0, Finite 0)"
    by simp
next
  fix spec
  assume "length spec = 81 \<and> (\<forall>s \<in> set spec. is_finite s)"
  with len fin show "\<exists>X Y Z. raw_xyz tab spec = Inr (Finite X, Finite Y, Finite Z)"
    by (intro raw_xyz_finite) simp_all
next
  fix spec X Y Z
  assume a: "length spec = 81 \<and> raw_xyz tab spec = Inr (Finite X, Finite Y, Finite Z) \<and>
            X + Y + Z \<noteq> 0"
  then show "spec_to_xyz cs spec =
              Inr (Finite (X / (X + Y + Z)), Finite (Y / (X + Y + Z)),
                   Finite (Z / (X + Y + Z)))"
    using cmf by (simp add: spec_to_xyz_normalised)
  from a show "X / (X + Y + Z) + Y / (X + Y + Z) + Z / (X + Y + Z) = 1"
    by (simp add: normalised_sum)
qed

theorem spec_to_xyz_guard_and_normalise_witness:
  "cmf (srgb_value flat_tables) = Some (replicate 81 (Finite 1, Finite 1, Finite 1)) \<and>
   spec_to_xyz (srgb_value flat_tables) (replicate 81 (Finite 0)) =
     Inr (Finite 0, Finite 0, Finite 0) \<and>
   raw_xyz (replicate 81 (Finite 1, Finite 1, Finite 1)) (replicate 81 (Finite 2)) =
     Inr (Finite 162, Finite 162, Finite 162) \<and>
   spec_to_xyz (srgb_value flat_tables) (replicate 81 (Finite 2)) =
     Inr (Finite (1 / 3), Finite (1 / 3), Finite (1 / 3))"
proof -
  have l: "length (replicate 81 (Finite 1, Finite 1, Finite 1) :: vec3 list) = 81" by simp
  have f: "\<forall>row \<in> set (replicate 81 (Finite 1, Finite 1, Finite 1) :: vec3 list).
             vall is_finite row"
    by (simp add: vall_def)
  from spec_to_xyz_guard_and_normalise [OF flat_cmf l f]
  have z: "spec_to_xyz (srgb_value flat_tables) (replicate 81 (Finite 0)) =
             Inr (Finite 0, Finite 0, Finite 0)"
    and n: "\<forall>spec X Y Z.
            length spec = 81 \<and>
            raw_xyz (replicate 81 (Finite 1, Finite 1, Finite 1)) spec =
              Inr (Finite X, Finite Y, Finite Z) \<and>
            X + Y + Z \<noteq> 0 \<longrightarrow>
            spec_to_xyz (srgb_value flat_tables) spec =
              Inr (Finite (X / (X + Y + Z)), Finite (Y / (X + Y + Z)),
                   Finite (Z / (X + Y + Z))) \<and>
            X / (X + Y + Z) + Y / (X + Y + Z) + Z / (X + Y + Z) = 1"
    by blast+
  from n flat_raw_two
  have "spec_to_xyz (srgb_value flat_tables) (replicate 81 (Finite 2)) =
          Inr (Finite (162 / (162 + 162 + 162)), Finite (162 / (162 + 162 + 162)),
               Finite (162 / (162 + 162 + 162)))"
    by (elim allE [of _ "replicate 81 (Finite 2)"] allE [of _ 162]) simp
  then have "spec_to_xyz (srgb_value flat_tables) (replicate 81 (Finite 2)) =
          Inr (Finite (1 / 3), Finite (1 / 3), Finite (1 / 3))"
    by simp
  with flat_cmf z flat_raw_two show ?thesis by blast
qed

text \<open>
  The source has no length check of its own: a spectrum of the wrong length fails where
  NumPy cannot broadcast \<open>(n, 1)\<close> against \<open>(81, 3)\<close>, with \<^verbatim>\<open>ValueError\<close>. On an
  instance whose table has 81 rows \<open>spec_to_xyz\<close> raises exactly when the length is
  neither 81 nor 1.
\<close>

lemma spec_to_xyz_raises_iff:
  assumes cmf: "cmf cs = Some tab" and len: "length tab = 81"
  shows "(spec_to_xyz cs spec = Inl ValueError \<longleftrightarrow> length spec \<noteq> 81 \<and> length spec \<noteq> 1) \<and>
         ((\<exists>v. spec_to_xyz cs spec = Inr v) \<longleftrightarrow> length spec = 81 \<or> length spec = 1)"
proof (cases "length spec = 81 \<or> length spec = 1")
  case True
  with len have "\<exists>rows. broadcast_rows spec tab = Inr rows"
    by (auto simp add: broadcast_rows_def)
  then obtain v where v: "spec_to_xyz cs spec = Inr v"
    using spec_to_xyz_returns [OF cmf] by blast
  then have a: "spec_to_xyz cs spec \<noteq> Inl ValueError" by simp
  from v have b: "\<exists>v. spec_to_xyz cs spec = Inr v" ..
  from a b True show ?thesis by blast
next
  case False
  with len have "broadcast_rows spec tab = Inl ValueError"
    by (simp add: broadcast_rows_def)
  then have a: "spec_to_xyz cs spec = Inl ValueError"
    by (simp add: spec_to_xyz_def raw_xyz_def cmf)
  then have b: "\<not> (\<exists>v. spec_to_xyz cs spec = Inr v)" by simp
  from a b False show ?thesis by blast
qed

lemma spec_to_xyz_two_samples:
  "spec_to_xyz (srgb_value flat_tables) [Finite 2, Finite 3] = Inl ValueError"
proof -
  have l: "length (replicate 81 (Finite 1, Finite 1, Finite 1) :: vec3 list) = 81" by simp
  from spec_to_xyz_raises_iff [OF flat_cmf l, of "[Finite 2, Finite 3]"]
  show ?thesis by simp
qed

text \<open>
  C6, on the code. The docstring of \<^verbatim>\<open>spec_to_xyz\<close> requires the spectrum on the grid of
  the colour-matching function, 81 samples. The one-sample spectrum \<open>[2]\<close> is not on
  that grid and \<open>spec_to_xyz\<close> raises nothing: the sample is stretched over the 81 rows of
  the table and a vector is returned.
\<close>

theorem spec_to_xyz_length_one_returns:
  "cmf (srgb_value flat_tables) = Some (replicate 81 (Finite 1, Finite 1, Finite 1)) \<and>
   length [Finite 2] \<noteq> 81 \<and>
   spec_to_xyz (srgb_value flat_tables) [Finite 2] =
     Inr (Finite (1 / 3), Finite (1 / 3), Finite (1 / 3))"
  by (simp add: flat_cmf spec_to_xyz_def flat_raw_single vsum_def vmap_def Let_def)

text \<open>
  C9. \<open>sepc_to_xy\<close> takes \<open>(X, Y, Z)\<close> from \<open>spec_to_xyz\<close>, passes its error on, and
  returns \<open>(X / (X + Y + Z), Y / (X + Y + Z))\<close>. For the all-zero spectrum of length 81
  (table set, 81 finite rows) \<open>spec_to_xyz\<close> returns zeros, both quotients are \<open>0 / 0\<close>
  and the result is the pair \<open>(NaN, NaN)\<close>: not an exception and not a finite pair.
\<close>

theorem sepc_to_xy_zero_spectrum:
  assumes cmf: "cmf cs = Some tab" and len: "length tab = 81"
      and fin: "\<forall>row \<in> set tab. vall is_finite row"
  shows "spec_to_xyz cs (replicate 81 (Finite 0)) = Inr (Finite 0, Finite 0, Finite 0) \<and>
         sepc_to_xy cs (replicate 81 (Finite 0)) = Inr (NaN, NaN) \<and>
         (\<forall>spec X Y Z. spec_to_xyz cs spec = Inr (X, Y, Z) \<longrightarrow>
            sepc_to_xy cs spec =
              Inr (fdiv X (fadd (fadd X Y) Z), fdiv Y (fadd (fadd X Y) Z))) \<and>
         (\<forall>spec e. spec_to_xyz cs spec = Inl e \<longrightarrow> sepc_to_xy cs spec = Inl e)"
proof -
  from spec_to_xyz_zero [OF cmf fin] len
  have z: "spec_to_xyz cs (replicate 81 (Finite 0)) = Inr (Finite 0, Finite 0, Finite 0)"
    by simp
  then have "sepc_to_xy cs (replicate 81 (Finite 0)) = Inr (NaN, NaN)"
    by (simp add: sepc_to_xy_def inf_of_sign_def)
  with z show ?thesis by (simp add: sepc_to_xy_def)
qed

theorem sepc_to_xy_zero_spectrum_witness:
  "cmf (srgb_value flat_tables) = Some (replicate 81 (Finite 1, Finite 1, Finite 1)) \<and>
   sepc_to_xy (srgb_value flat_tables) (replicate 81 (Finite 0)) = Inr (NaN, NaN)"
proof -
  have l: "length (replicate 81 (Finite 1, Finite 1, Finite 1) :: vec3 list) = 81" by simp
  have f: "\<forall>row \<in> set (replicate 81 (Finite 1, Finite 1, Finite 1) :: vec3 list).
             vall is_finite row"
    by (simp add: vall_def)
  from sepc_to_xy_zero_spectrum [OF flat_cmf l f] flat_cmf show ?thesis by blast
qed

subsection \<open>From XYZ to a spectrum\<close>

lemma np_multiply1_same_length:
  "length xs = length ys \<Longrightarrow> np_multiply1 xs ys = Inr (map2 fmul xs ys)"
  by (simp add: np_multiply1_def)

lemma map2_column1:
  "map2 fmul (column1 rows) ds = map (\<lambda>(row, d). fmul (y_channel row) d) (zip rows ds)"
proof (induction rows arbitrary: ds)
  case Nil
  show ?case by (simp add: column1_def)
next
  case (Cons row rows)
  from Cons [of "tl ds"] show ?case
    by (cases ds; cases row) (simp_all add: column1_def)
qed

lemma weight_aligned:
  "length (cmf1964 tabs) = length (D65 tabs) \<Longrightarrow> weight tabs = Inr (weight_spec tabs)"
  by (simp add: weight_def weight_spec_def np_multiply1_same_length column1_def np_sum_def
      map2_column1 [unfolded column1_def])

lemma row_sum_spec_eq: "vsum (vmul (vmap (\<lambda>c. fmul c w) xyz) row) = row_sum_spec w xyz row"
  by (cases xyz; cases row) (simp add: vsum_def vmul_def vmap_def)

lemma init_srgb_1931:
  "init tabs (0.64, 0.33) (0.30, 0.60) (0.15, 0.06) illuminant_D65 1931 =
     Inr ((srgb_value tabs)\<lparr>cmf := Some (cmf1931 tabs)\<rparr>)"
  by (simp add: srgb_value_def init_def xyz_from_xy_def transpose3_def inv3_def
      det3_def Let_def illuminant_D65_def xy_to_xyz_def lift3_def lift_mat_def mat_dot_def
      dot_def vmul_def vsum_def row_div_def vmap_def)

lemma skew_weight: "weight_spec skew_tables = Finite 81"
proof -
  have "zip (replicate 81 (Finite 1, Finite 2, Finite 4)) (replicate 81 (Finite (1 / 2))) =
        replicate 81 ((Finite 1, Finite 2, Finite 4), Finite (1 / 2))"
    by (simp only: zip_replicate) simp
  then show ?thesis
    by (simp add: weight_spec_def skew_tables_def foldl_fadd_replicate)
qed

text \<open>
  C7. With tables on the 81-sample grid, \<open>xyz_to_spec\<close> of every instance equals the
  specification's description: the input scaled by the weight, which is the sum over the
  grid of the Y channel of the 1964 table times the D65 spectrum, then one sum of
  products per row of the 1964 table. The instance, and so the CMF variant it was built
  with, has no influence on the result.
\<close>

theorem xyz_to_spec_fixed_table:
  assumes "length (cmf1964 tabs) = 81" and "length (D65 tabs) = 81"
  shows "xyz_to_spec tabs cs xyz = Inr (xyz_to_spec_spec tabs xyz) \<and>
         length (xyz_to_spec_spec tabs xyz) = 81 \<and>
         (\<forall>cs'. xyz_to_spec tabs cs' xyz = xyz_to_spec tabs cs xyz)"
proof -
  from assms have w: "weight tabs = Inr (weight_spec tabs)"
    by (simp add: weight_aligned)
  have eq: "xyz_to_spec tabs c xyz = Inr (xyz_to_spec_spec tabs xyz)" for c
    by (simp add: xyz_to_spec_def w xyz_to_spec_spec_def sum_axis1_def Let_def
        row_sum_spec_eq comp_def)
  from assms(1) have "length (xyz_to_spec_spec tabs xyz) = 81"
    by (simp add: xyz_to_spec_spec_def)
  with eq show ?thesis by simp
qed

text \<open>
  The sRGB system built with the 1931 table and the one built with the 1964 table, on
  tables where the two differ: both give the rows of the 1964 table scaled by its own
  weight, \<open>81 \<cdot> (1 \<cdot> 1 + 2 \<cdot> 2 + 3 \<cdot> 4) = 1377\<close>.
\<close>

theorem xyz_to_spec_fixed_table_witness:
  "length (cmf1964 skew_tables) = 81 \<and> length (D65 skew_tables) = 81 \<and>
   init skew_tables (0.64, 0.33) (0.30, 0.60) (0.15, 0.06) illuminant_D65 1931 =
     Inr ((srgb_value skew_tables)\<lparr>cmf := Some (cmf1931 skew_tables)\<rparr>) \<and>
   init skew_tables (0.64, 0.33) (0.30, 0.60) (0.15, 0.06) illuminant_D65 1964 =
     Inr (srgb_value skew_tables) \<and>
   cmf ((srgb_value skew_tables)\<lparr>cmf := Some (cmf1931 skew_tables)\<rparr>) =
     Some (replicate 81 (Finite 3, Finite 5, Finite 7)) \<and>
   cmf (srgb_value skew_tables) = Some (replicate 81 (Finite 1, Finite 2, Finite 4)) \<and>
   xyz_to_spec skew_tables ((srgb_value skew_tables)\<lparr>cmf := Some (cmf1931 skew_tables)\<rparr>)
       (Finite 1, Finite 2, Finite 3) =
     Inr (replicate 81 (Finite 1377)) \<and>
   xyz_to_spec skew_tables (srgb_value skew_tables) (Finite 1, Finite 2, Finite 3) =
     Inr (replicate 81 (Finite 1377))"
proof -
  have l1: "length (cmf1964 skew_tables) = 81" by (simp add: skew_tables_def)
  have l2: "length (D65 skew_tables) = 81" by (simp add: skew_tables_def)
  have v: "xyz_to_spec_spec skew_tables (Finite 1, Finite 2, Finite 3) =
             replicate 81 (Finite 1377)"
    by (simp add: xyz_to_spec_spec_def skew_weight) (simp add: skew_tables_def)
  have c1: "cmf ((srgb_value skew_tables)\<lparr>cmf := Some (cmf1931 skew_tables)\<rparr>) =
              Some (replicate 81 (Finite 3, Finite 5, Finite 7))"
    by (simp add: skew_tables_def)
  have c2: "cmf (srgb_value skew_tables) = Some (replicate 81 (Finite 1, Finite 2, Finite 4))"
    by (simp add: srgb_value_def skew_tables_def)
  have i2: "init skew_tables (0.64, 0.33) (0.30, 0.60) (0.15, 0.06) illuminant_D65 1964 =
              Inr (srgb_value skew_tables)"
    using cs_srgb_value [of skew_tables] by (simp only: cs_srgb_def)
  from xyz_to_spec_fixed_table [OF l1 l2] l1 l2 v c1 c2 i2 init_srgb_1931 [of skew_tables]
  show ?thesis by simp
qed

end
